theory Spec2Isabelle
  imports Complex_Main
begin

section \<open>Python strings and the built-ins the scraper uses\<close>

text \<open>
  A Python \<open>str\<close> is modelled as a \<open>string\<close> holding the text's UTF-8 bytes. On ASCII
  text, which is what every example of the specification uses, a byte is a code point
  and the functions below are Python's. A byte of a multi-byte sequence counts as an
  ordinary character: it is neither whitespace nor a digit, and \<open>upper\<close> leaves it as it
  is, so text with non-ASCII whitespace, digits or letters is outside the model.
\<close>

definition isspace :: "char \<Rightarrow> bool" where
  \<comment> \<open>\<open>str.isspace\<close> on one ASCII character: TAB, LF, VT, FF, CR, FS, GS, RS, US, SPACE\<close>
  "isspace c = (let n = (of_char c :: nat) in (9 \<le> n \<and> n \<le> 13) \<or> (28 \<le> n \<and> n \<le> 32))"

definition isdigit :: "char \<Rightarrow> bool" where
  "isdigit c = (let n = (of_char c :: nat) in 48 \<le> n \<and> n \<le> 57)"

definition upper_char :: "char \<Rightarrow> char" where
  \<comment> \<open>\<open>str.upper\<close> on one ASCII character\<close>
  "upper_char c =
     (case map_of (zip ''abcdefghijklmnopqrstuvwxyz'' ''ABCDEFGHIJKLMNOPQRSTUVWXYZ'') c of
        Some u \<Rightarrow> u
      | None \<Rightarrow> c)"

definition py_upper :: "string \<Rightarrow> string" where
  \<comment> \<open>\<open>s.upper()\<close>\<close>
  "py_upper s = map upper_char s"

fun split_ws :: "string \<Rightarrow> string \<Rightarrow> string list" where
  \<comment> \<open>scanner of \<open>s.split()\<close>: the first argument is the token read so far\<close>
  "split_ws cur [] = (if cur = [] then [] else [cur])"
| "split_ws cur (c # cs) =
     (if isspace c then (if cur = [] then split_ws [] cs else cur # split_ws [] cs)
      else split_ws (cur @ [c]) cs)"

definition py_split :: "string \<Rightarrow> string list" where
  \<comment> \<open>\<open>s.split()\<close>: the maximal runs of non-whitespace characters\<close>
  "py_split s = split_ws [] s"

fun split_sep :: "char \<Rightarrow> string \<Rightarrow> string \<Rightarrow> string list" where
  "split_sep sep cur [] = [cur]"
| "split_sep sep cur (c # cs) =
     (if c = sep then cur # split_sep sep [] cs else split_sep sep (cur @ [c]) cs)"

definition py_split_on :: "char \<Rightarrow> string \<Rightarrow> string list" where
  \<comment> \<open>\<open>s.split(sep)\<close> for a one-character separator; empty pieces are kept\<close>
  "py_split_on sep s = split_sep sep [] s"

definition strip_pred :: "(char \<Rightarrow> bool) \<Rightarrow> string \<Rightarrow> string" where
  "strip_pred p s = rev (dropWhile p (rev (dropWhile p s)))"

definition py_strip :: "string \<Rightarrow> string" where
  \<comment> \<open>\<open>s.strip()\<close>\<close>
  "py_strip s = strip_pred isspace s"

definition py_strip_chars :: "string \<Rightarrow> string \<Rightarrow> string" where
  \<comment> \<open>\<open>s.strip(chars)\<close>\<close>
  "py_strip_chars chars s = strip_pred (\<lambda>c. c \<in> set chars) s"

fun py_join :: "string \<Rightarrow> string list \<Rightarrow> string" where
  \<comment> \<open>\<open>sep.join(xs)\<close>\<close>
  "py_join sep [] = []"
| "py_join sep [x] = x"
| "py_join sep (x # y # ys) = x @ sep @ py_join sep (y # ys)"

function py_replace_empty :: "string \<Rightarrow> string \<Rightarrow> string" where
  \<comment> \<open>\<open>s.replace(old, "")\<close> for a non-empty \<open>old\<close>: occurrences are removed left to right\<close>
  "py_replace_empty old s =
     (if old = [] then s
      else if s = [] then []
      else if take (length old) s = old then py_replace_empty old (drop (length old) s)
      else hd s # py_replace_empty old (tl s))"
  by pat_completeness auto
termination
  by (relation "measure (\<lambda>(old, s). length s)") (auto simp: neq_Nil_conv)

fun find_from :: "string \<Rightarrow> string \<Rightarrow> nat \<Rightarrow> nat option" where
  "find_from sub [] i = (if sub = [] then Some i else None)"
| "find_from sub (c # cs) i =
     (if take (length sub) (c # cs) = sub then Some i else find_from sub cs (Suc i))"

definition py_find :: "string \<Rightarrow> string \<Rightarrow> nat option" where
  \<comment> \<open>\<open>s.find(sub)\<close>: the index of the first occurrence, \<open>None\<close> for Python's \<open>-1\<close>\<close>
  "py_find s sub = find_from sub s 0"

definition py_in :: "string \<Rightarrow> string \<Rightarrow> bool" where
  \<comment> \<open>\<open>sub in s\<close>\<close>
  "py_in sub s = (py_find s sub \<noteq> None)"

definition digit_char :: "nat \<Rightarrow> char" where
  "digit_char d = ''0123456789'' ! d"

fun str_nat :: "nat \<Rightarrow> string" where
  "str_nat n = (if n < 10 then [digit_char n] else str_nat (n div 10) @ [digit_char (n mod 10)])"

declare str_nat.simps [simp del]

definition py_str_int :: "int \<Rightarrow> string" where
  \<comment> \<open>\<open>str(i)\<close> of a Python integer\<close>
  "py_str_int i = (if i < 0 then CHR ''-'' # str_nat (nat (- i)) else str_nat (nat i))"

section \<open>extractors/utils.py\<close>

definition normalize_whitespace :: "string \<Rightarrow> string" where
  "normalize_whitespace text = (if text \<noteq> [] then py_join '' '' (py_split text) else [])"

subsection \<open>\<open>urllib.parse.urlencode\<close>\<close>

text \<open>
  \<open>urlencode\<close> of a dictionary of strings and integers, with the default \<open>quote_plus\<close>:
  letters, digits and \<open>_ . - ~\<close> stay, a space becomes \<open>+\<close>, every other byte becomes
  \<open>%XX\<close> in upper-case hexadecimal; the pairs are joined by \<open>&\<close> in the dictionary's
  insertion order.
\<close>

definition always_safe :: "char \<Rightarrow> bool" where
  "always_safe c =
     (let n = (of_char c :: nat) in
        (48 \<le> n \<and> n \<le> 57) \<or> (65 \<le> n \<and> n \<le> 90) \<or> (97 \<le> n \<and> n \<le> 122) \<or> c \<in> set ''_.-~'')"

definition hex_digit :: "nat \<Rightarrow> char" where
  "hex_digit d = ''0123456789ABCDEF'' ! d"

definition quote_char :: "char \<Rightarrow> string" where
  "quote_char c =
     (if always_safe c then [c]
      else if c = CHR '' '' then ''+''
      else [CHR ''%'', hex_digit ((of_char c :: nat) div 16), hex_digit ((of_char c :: nat) mod 16)])"

definition quote_plus :: "string \<Rightarrow> string" where
  "quote_plus s = concat (map quote_char s)"

definition urlencode :: "(string \<times> string) list \<Rightarrow> string" where
  "urlencode params = py_join ''&'' (map (\<lambda>(k, v). quote_plus k @ ''='' @ quote_plus v) params)"

subsection \<open>\<open>build_search_url\<close>\<close>

text \<open>
  \<open>urllib.parse.urljoin\<close> is a library function of two strings; it is a parameter of
  every function that calls it.
\<close>

definition build_search_url ::
  "(string \<Rightarrow> string \<Rightarrow> string) \<Rightarrow> string \<Rightarrow> string \<Rightarrow> string \<Rightarrow> string \<Rightarrow> string \<Rightarrow> int \<Rightarrow> string" where
  "build_search_url urljoin base_url query mode region language page =
     (let mode_segment = (if mode = ''company'' then ''firmen'' else ''produkte'');
          lang_segment = (if language = ''de'' then ''de'' else ''en'');
          path = ''/'' @ lang_segment @ ''/'' @ mode_segment @ ''/'';
          params = [(''q'', query), (''page'', py_str_int page), (''country'', region)];
          full_url = urljoin base_url path
      in full_url @ ''?'' @ urlencode params)"

section \<open>Python values, exceptions and library interfaces\<close>

text \<open>
  The exceptions the model can raise. All of them are subclasses of \<open>Exception\<close>, which
  the handler of \<open>fetch_page\<close> catches.
\<close>

datatype py_exception = IndexError | ValueError | RequestException | HTTPError | OtherException string

definition py_last :: "'a list \<Rightarrow> py_exception + 'a" where
  \<comment> \<open>\<open>xs[-1]\<close>\<close>
  "py_last xs = (if xs = [] then Inl IndexError else Inr (last xs))"

definition py_int :: "string \<Rightarrow> py_exception + int" where
  \<comment> \<open>\<open>int(s)\<close> of a string of decimal digits\<close>
  "py_int s =
     (if s \<noteq> [] \<and> list_all isdigit s
      then Inr (foldl (\<lambda>a c. 10 * a + (int (of_char c) - 48)) 0 s)
      else Inl ValueError)"

definition truthy :: "string option \<Rightarrow> bool" where
  \<comment> \<open>truth value of an optional string: \<open>None\<close> and \<open>""\<close> are false\<close>
  "truthy v = (case v of None \<Rightarrow> False | Some s \<Rightarrow> s \<noteq> [])"

definition str_or :: "string option \<Rightarrow> string option \<Rightarrow> string option" where
  \<comment> \<open>\<open>a or b\<close> on optional strings\<close>
  "str_or a b = (if truthy a then a else b)"

definition or_none :: "string \<Rightarrow> string option" where
  \<comment> \<open>\<open>s or None\<close>\<close>
  "or_none s = (if s \<noteq> [] then Some s else None)"

fun el_or :: "'e option \<Rightarrow> 'e option \<Rightarrow> 'e option" where
  \<comment> \<open>\<open>a or b\<close> on optional elements: a \<open>Tag\<close> is always true\<close>
  "el_or (Some x) b = Some x"
| "el_or None b = b"

fun collect :: "('a \<Rightarrow> py_exception + 'b) \<Rightarrow> 'a list \<Rightarrow> py_exception + 'b list" where
  \<comment> \<open>a \<open>for\<close> loop appending \<open>f x\<close> for every \<open>x\<close>; the first exception ends it\<close>
  "collect f [] = Inr []"
| "collect f (x # xs) =
     (case f x of
        Inl e \<Rightarrow> Inl e
      | Inr y \<Rightarrow> (case collect f xs of Inl e \<Rightarrow> Inl e | Inr ys \<Rightarrow> Inr (y # ys)))"

text \<open>
  BeautifulSoup and \<open>urljoin\<close> are libraries outside the repository. They are a parameter
  of the extractors: a record of the operations the source calls, over an arbitrary type
  \<open>'e\<close> of elements. An attribute lookup covers \<open>has_attr\<close>, \<open>el[key]\<close> and \<open>el.get(key)\<close>;
  \<open>find(string=pred)\<close> yields the matching string together with its parent element.
\<close>

record 'e libs =
  lib_urljoin :: "string \<Rightarrow> string \<Rightarrow> string"
  bs_parse :: "string \<Rightarrow> 'e"
  bs_select :: "'e \<Rightarrow> string \<Rightarrow> 'e list"
  bs_select_one :: "'e \<Rightarrow> string \<Rightarrow> 'e option"
  bs_find :: "'e \<Rightarrow> string \<Rightarrow> 'e option"
  bs_find_all :: "'e \<Rightarrow> string \<Rightarrow> 'e list"
  bs_find_string :: "'e \<Rightarrow> (string \<Rightarrow> bool) \<Rightarrow> (string \<times> 'e) option"
  bs_attr :: "'e \<Rightarrow> string \<Rightarrow> string option"
  bs_get_text :: "'e \<Rightarrow> string \<Rightarrow> bool \<Rightarrow> string"

section \<open>extractors/company_parser.py\<close>

record company_contact =
  contact_first_name :: "string option"
  contact_last_name :: "string option"
  contact_email :: "string option"
  contact_role :: "string option"

record company_address =
  addr_street :: "string option"
  addr_postal_code :: "string option"
  addr_city :: "string option"
  addr_country_code :: "string option"
  addr_full :: "string option"

text \<open>The dictionary \<open>parse_company_details\<close> returns, one field per key.\<close>

record company_details =
  cd_company_id :: "string option"
  cd_name :: "string option"
  cd_email :: "string option"
  cd_phone_number :: "string option"
  cd_homepage :: "string option"
  cd_address :: company_address
  cd_employee_count :: "string option"
  cd_founding_year :: "int option"
  cd_description :: "string option"
  cd_products :: "string list"
  cd_contacts :: "company_contact list"
  cd_certificates :: "string list"

text \<open>
  \<open>CompanySummary\<close> and the dictionary \<open>to_dict\<close> makes of it, one field per key. The key
  \<open>details\<close>, which only the orchestrator adds, is the field \<open>cs_details\<close>: \<open>None\<close> is the
  absent key.
\<close>

record company_summary =
  cs_company_id :: "string option"
  cs_name :: "string option"
  cs_email :: "string option"
  cs_phone_number :: "string option"
  cs_homepage :: "string option"
  cs_address :: "company_address option"
  cs_employee_count :: "string option"
  cs_founding_year :: "int option"
  cs_description :: "string option"
  cs_region :: "string option"
  cs_logo_url :: "string option"
  cs_details_url :: "string option"
  cs_details :: "company_details option"

definition extract_text :: "'e libs \<Rightarrow> 'e option \<Rightarrow> string" where
  \<comment> \<open>\<open>_extract_text\<close>\<close>
  "extract_text L element =
     (case element of Some el \<Rightarrow> normalize_whitespace (bs_get_text L el [] True) | None \<Rightarrow> [])"

definition CompanyAddress_full :: "string \<Rightarrow> company_address" where
  \<comment> \<open>\<open>CompanyAddress(full=address_full)\<close>: the other fields default to \<open>None\<close>\<close>
  "CompanyAddress_full address_full =
     \<lparr>addr_street = None, addr_postal_code = None, addr_city = None, addr_country_code = None,
      addr_full = Some address_full\<rparr>"

definition link_company_id :: "'e libs \<Rightarrow> 'e \<Rightarrow> string \<Rightarrow> py_exception + string option" where
  \<comment> \<open>\<open>details_link.get("data-id") or details_link["href"].strip("/").split("-")[-1]\<close>\<close>
  "link_company_id L details_link href =
     (if truthy (bs_attr L details_link ''data-id'') then Inr (bs_attr L details_link ''data-id'')
      else case py_last (py_split_on CHR ''-'' (py_strip_chars ''/'' href)) of
             Inl e \<Rightarrow> Inl e
           | Inr tok \<Rightarrow> Inr (Some tok))"

definition company_link :: "'e libs \<Rightarrow> string \<Rightarrow> 'e \<Rightarrow> py_exception + string option \<times> string option" where
  \<comment> \<open>\<open>(details_url, company_id)\<close> of a card: the lines from \<open>company_id = card.get("data-id") ...\<close>
      to the end of \<open>if details_link and details_link.has_attr("href")\<close>\<close>
  "company_link L base_url card_el =
     (let company_id = str_or (bs_attr L card_el ''data-id'') (bs_attr L card_el ''data-company-id'');
          details_link = el_or (bs_select_one L card_el ''a[data-test='company-link']'')
                           (el_or (bs_select_one L card_el ''a[href*='/firmen/']'') (bs_find L card_el ''a''))
      in case details_link of
           None \<Rightarrow> Inr (None, company_id)
         | Some dl \<Rightarrow>
             (case bs_attr L dl ''href'' of
                None \<Rightarrow> Inr (None, company_id)
              | Some href \<Rightarrow>
                  if \<not> truthy company_id
                  then (case link_company_id L dl href of
                          Inl e \<Rightarrow> Inl e
                        | Inr cid \<Rightarrow> Inr (Some (lib_urljoin L base_url href), cid))
                  else Inr (Some (lib_urljoin L base_url href), company_id)))"

definition parse_company_card :: "'e libs \<Rightarrow> string \<Rightarrow> 'e \<Rightarrow> py_exception + company_summary" where
  \<comment> \<open>the body of the loop over the cards in \<open>parse_company_list\<close>; \<open>card_el\<close> is \<open>card\<close>\<close>
  "parse_company_card L base_url card_el =
     (let name_el = el_or (bs_select_one L card_el ''[data-test='company-name']'')
                      (el_or (bs_select_one L card_el ''h2'') (bs_select_one L card_el ''h3''));
          name = extract_text L name_el
      in case company_link L base_url card_el of
           Inl e \<Rightarrow> Inl e
         | Inr (details_url, company_id) \<Rightarrow>
             (let email = (case bs_select_one L card_el ''a[href^='mailto:']'' of
                             None \<Rightarrow> []
                           | Some email_el \<Rightarrow>
                               (case bs_attr L email_el ''href'' of
                                  None \<Rightarrow> []
                                | Some h \<Rightarrow> py_strip (py_replace_empty ''mailto:'' h)));
                  phone_number = (case bs_select_one L card_el ''a[href^='tel:']'' of
                                    None \<Rightarrow> []
                                  | Some phone_el \<Rightarrow>
                                      (case bs_attr L phone_el ''href'' of
                                         None \<Rightarrow> []
                                       | Some h \<Rightarrow> py_strip (py_replace_empty ''tel:'' h)));
                  homepage = (case bs_select_one L card_el ''a[href^='http']'' of
                                None \<Rightarrow> []
                              | Some homepage_el \<Rightarrow>
                                  (case bs_attr L homepage_el ''href'' of
                                     None \<Rightarrow> []
                                   | Some h \<Rightarrow> py_strip h));
                  address_el = el_or (bs_select_one L card_el ''[data-test='company-address']'')
                                 (bs_select_one L card_el ''.address'');
                  address_full = extract_text L address_el;
                  address = CompanyAddress_full address_full;
                  employee_el = bs_find_string L card_el (\<lambda>s. s \<noteq> [] \<and> py_in ''Mitarbeiter'' s);
                  employee_count = (case employee_el of
                                      None \<Rightarrow> None
                                    | Some (s, parent) \<Rightarrow>
                                        if s \<noteq> [] then Some (normalize_whitespace s) else None);
                  description_el = el_or (bs_select_one L card_el ''[data-test='company-description']'')
                                     (bs_select_one L card_el ''.description'');
                  description = extract_text L description_el;
                  logo_url = (case bs_select_one L card_el ''img'' of
                                None \<Rightarrow> None
                              | Some logo_el \<Rightarrow> bs_attr L logo_el ''src'')
              in Inr \<lparr>cs_company_id = company_id,
                      cs_name = or_none name,
                      cs_email = or_none email,
                      cs_phone_number = or_none phone_number,
                      cs_homepage = or_none homepage,
                      cs_address = Some address,
                      cs_employee_count = employee_count,
                      cs_founding_year = None,
                      cs_description = or_none description,
                      cs_region = None,
                      cs_logo_url = logo_url,
                      cs_details_url = details_url,
                      cs_details = None\<rparr>))"

definition parse_company_list :: "'e libs \<Rightarrow> string \<Rightarrow> string \<Rightarrow> py_exception + company_summary list" where
  "parse_company_list L html base_url =
     (let soup = bs_parse L html;
          cards = bs_select L soup
                    ''[data-test='company-result-card'], article.company-item, div.company-card''
      in collect (parse_company_card L base_url) cards)"


definition address_breakdown ::
  "string \<Rightarrow> py_exception + (string option \<times> string option \<times> string option \<times> string option)" where
  \<comment> \<open>the address heuristics of \<open>parse_company_details\<close>:
      \<open>(street, postal_code, city, country_code)\<close> from \<open>address_full\<close>\<close>
  "address_breakdown address_full =
     (if address_full \<noteq> [] then
        (let parts = map py_strip (filter (\<lambda>p. py_strip p \<noteq> []) (py_split_on CHR '','' address_full));
             street = (if parts \<noteq> [] then Some (parts ! 0) else None);
             tokens = (if 2 \<le> length parts then py_split (parts ! 1) else []);
             postal_code = (if 2 \<le> length parts \<and> tokens \<noteq> [] then Some (tokens ! 0) else None);
             city = (if 2 \<le> length parts \<and> tokens \<noteq> []
                     then or_none (py_join '' '' (drop 1 tokens)) else None)
         in if 3 \<le> length parts
            then (case py_last (py_split (last parts)) of
                    Inl e \<Rightarrow> Inl e
                  | Inr tok \<Rightarrow> Inr (street, postal_code, city, Some (py_upper tok)))
            else Inr (street, postal_code, city, None))
      else Inr (None, None, None, None))"


definition gruendungsjahr :: string where
  \<comment> \<open>the marker \<open>Gruendungsjahr\<close> with u-umlaut, in UTF-8\<close>
  "gruendungsjahr = ''Gr'' @ [CHR 0xC3, CHR 0xBC] @ ''ndungsjahr''"

definition parse_facts :: "'e libs \<Rightarrow> 'e \<Rightarrow> string option \<times> int option" where
  \<comment> \<open>\<open>(employee_count, founding_year)\<close> of \<open>parse_company_details\<close>\<close>
  "parse_facts L soup =
     (case bs_find_string L soup
             (\<lambda>s. s \<noteq> [] \<and> (py_in gruendungsjahr s \<or> py_in ''Mitarbeiteranzahl'' s)) of
        None \<Rightarrow> (None, None)
      | Some (facts_section, parent) \<Rightarrow>
          if facts_section = [] then (None, None)
          else
            (let text_block = normalize_whitespace (bs_get_text L parent '' '' False);
                 founding_year =
                   (if py_in gruendungsjahr text_block
                    then (case find (\<lambda>token. token \<noteq> [] \<and> list_all isdigit token \<and> length token = 4)
                                 (py_split text_block) of
                            None \<Rightarrow> None
                          | Some token \<Rightarrow> (case py_int token of Inl e \<Rightarrow> None | Inr y \<Rightarrow> Some y))
                    else None);
                 employee_count =
                   (if py_in ''Mitarbeiter'' text_block
                    then (case py_find text_block ''Mitarbeiter'' of
                            Some start \<Rightarrow> Some (py_strip (drop start text_block))
                          | None \<Rightarrow> Some (py_strip (drop (length text_block - 1) text_block)))
                    else None)
             in (employee_count, founding_year)))"

definition parse_contact :: "'e libs \<Rightarrow> 'e \<Rightarrow> company_contact" where
  \<comment> \<open>the body of the loop over \<open>contact_blocks\<close> in \<open>parse_company_details\<close>\<close>
  "parse_contact L block =
     (let name_el = bs_select_one L block ''h3, h4, .name'';
          role_el = bs_select_one L block ''.role, .position'';
          mail_el = bs_select_one L block ''a[href^='mailto:']'';
          full_name = extract_text L name_el;
          tokens = py_split full_name;
          first_name = (if full_name \<noteq> []
                        then (if 2 \<le> length tokens then Some (tokens ! 0) else Some full_name)
                        else None);
          last_name = (if full_name \<noteq> [] \<and> 2 \<le> length tokens
                       then Some (py_join '' '' (drop 1 tokens)) else None);
          email_contact = (case mail_el of
                             None \<Rightarrow> None
                           | Some m \<Rightarrow>
                               (case bs_attr L m ''href'' of
                                  None \<Rightarrow> None
                                | Some h \<Rightarrow> Some (py_strip (py_replace_empty ''mailto:'' h))))
      in \<lparr>contact_first_name = first_name, contact_last_name = last_name,
          contact_email = email_contact, contact_role = or_none (extract_text L role_el)\<rparr>)"

definition parse_company_details :: "'e libs \<Rightarrow> string \<Rightarrow> string option \<Rightarrow> py_exception + company_details" where
  "parse_company_details L html company_id =
     (let soup = bs_parse L html;
          name_el = el_or (bs_select_one L soup ''[data-test='company-name']'')
                      (el_or (bs_select_one L soup ''h1'') (bs_select_one L soup ''h2''));
          name = extract_text L name_el;
          description_el = el_or (bs_select_one L soup ''[data-test='company-description']'')
                             (el_or (bs_select_one L soup ''section.description'')
                                (bs_select_one L soup ''p.lead''));
          description = extract_text L description_el;
          email = (case bs_select_one L soup ''a[href^='mailto:']'' of
                     None \<Rightarrow> []
                   | Some email_el \<Rightarrow>
                       (case bs_attr L email_el ''href'' of
                          None \<Rightarrow> []
                        | Some h \<Rightarrow> py_strip (py_replace_empty ''mailto:'' h)));
          phone_number = (case bs_select_one L soup ''a[href^='tel:']'' of
                            None \<Rightarrow> []
                          | Some phone_el \<Rightarrow>
                              (case bs_attr L phone_el ''href'' of
                                 None \<Rightarrow> []
                               | Some h \<Rightarrow> py_strip (py_replace_empty ''tel:'' h)));
          homepage = (case bs_select_one L soup ''a[href^='http']'' of
                        None \<Rightarrow> []
                      | Some homepage_el \<Rightarrow>
                          (case bs_attr L homepage_el ''href'' of
                             None \<Rightarrow> []
                           | Some h \<Rightarrow> py_strip h));
          address_container = el_or (bs_select_one L soup ''[data-test='company-address']'')
                                (el_or (bs_select_one L soup ''address'') (bs_select_one L soup ''.address''));
          address_full = extract_text L address_container
      in case address_breakdown address_full of
           Inl e \<Rightarrow> Inl e
         | Inr (street, postal_code, city, country_code) \<Rightarrow>
             (let address = \<lparr>addr_street = street, addr_postal_code = postal_code, addr_city = city,
                             addr_country_code = country_code, addr_full = or_none address_full\<rparr>;
                  (employee_count, founding_year) = parse_facts L soup;
                  contact_blocks = bs_select L soup ''[data-test='contact-person'], .contact-person'';
                  contacts = map (parse_contact L) contact_blocks;
                  certificates = (case bs_find_string L soup (\<lambda>s. s \<noteq> [] \<and> py_in ''Zertifizierungen'' s) of
                                    None \<Rightarrow> []
                                  | Some (cert_section, container) \<Rightarrow>
                                      if cert_section = [] then []
                                      else filter (\<lambda>t. t \<noteq> [])
                                             (map (\<lambda>item. extract_text L (Some item))
                                                (bs_find_all L container ''li'')));
                  product_items = bs_select L soup
                                    ''[data-test='product-name'], .product-list li, section.products li'';
                  products = filter (\<lambda>t. t \<noteq> []) (map (\<lambda>item. extract_text L (Some item)) product_items)
              in Inr \<lparr>cd_company_id = company_id,
                      cd_name = or_none name,
                      cd_email = or_none email,
                      cd_phone_number = or_none phone_number,
                      cd_homepage = or_none homepage,
                      cd_address = address,
                      cd_employee_count = employee_count,
                      cd_founding_year = founding_year,
                      cd_description = or_none description,
                      cd_products = products,
                      cd_contacts = contacts,
                      cd_certificates = certificates\<rparr>))"

section \<open>extractors/product_parser.py\<close>





section \<open>outputs/json_exporter.py\<close>

text \<open>
  \<open>datetime.utcnow()\<close> reads the clock: its value is a parameter. \<open>isoformat\<close> is the
  library's: year, month and day, \<open>T\<close>, the time of day, and the microseconds when they
  are not zero; a naive \<open>datetime\<close> has no offset suffix.
\<close>

record datetime =
  dt_year :: nat
  dt_month :: nat
  dt_day :: nat
  dt_hour :: nat
  dt_minute :: nat
  dt_second :: nat
  dt_microsecond :: nat

definition valid_datetime :: "datetime \<Rightarrow> bool" where
  \<comment> \<open>the ranges a \<open>datetime\<close> object keeps its fields in\<close>
  "valid_datetime d =
     (1 \<le> dt_year d \<and> dt_year d \<le> 9999 \<and> 1 \<le> dt_month d \<and> dt_month d \<le> 12 \<and>
      1 \<le> dt_day d \<and> dt_day d \<le> 31 \<and> dt_hour d \<le> 23 \<and> dt_minute d \<le> 59 \<and>
      dt_second d \<le> 59 \<and> dt_microsecond d \<le> 999999)"

definition zero_pad :: "nat \<Rightarrow> nat \<Rightarrow> string" where
  \<comment> \<open>the format \<open>%0wd\<close>\<close>
  "zero_pad w n = replicate (w - length (str_nat n)) CHR ''0'' @ str_nat n"

definition isoformat :: "datetime \<Rightarrow> string" where
  "isoformat d =
     zero_pad 4 (dt_year d) @ ''-'' @ zero_pad 2 (dt_month d) @ ''-'' @ zero_pad 2 (dt_day d) @ ''T'' @
     zero_pad 2 (dt_hour d) @ '':'' @ zero_pad 2 (dt_minute d) @ '':'' @ zero_pad 2 (dt_second d) @
     (if dt_microsecond d \<noteq> 0 then ''.'' @ zero_pad 6 (dt_microsecond d) else [])"

record export_meta =
  exported_at :: string
  record_count :: nat

record 'r export_payload =
  meta :: export_meta
  data :: "'r list"

definition export_to_json ::
  "datetime \<Rightarrow> 'r list \<Rightarrow> string \<Rightarrow> (string \<rightharpoonup> 'r export_payload) \<Rightarrow> (string \<rightharpoonup> 'r export_payload)" where
  \<comment> \<open>the file system maps a path to the payload written there; \<open>utcnow\<close> is the clock's value\<close>
  "export_to_json utcnow records path fs =
     (let records_list = records;
          payload = \<lparr>meta = \<lparr>exported_at = isoformat utcnow @ ''Z'',
                               record_count = length records_list\<rparr>,
                      data = records_list\<rparr>
      in fs(path \<mapsto> payload))"

text \<open>
  The shape of an ISO-8601 timestamp in UTC: \<open>YYYY-MM-DDTHH:MM:SS\<close>, an optional fraction
  of six digits, and the suffix \<open>Z\<close>.
\<close>

definition digits :: "nat \<Rightarrow> string \<Rightarrow> bool" where
  "digits k s = (length s = k \<and> list_all isdigit s)"

fun eat_digits :: "nat \<Rightarrow> string \<Rightarrow> string option" where
  \<comment> \<open>reads exactly \<open>k\<close> digits and gives the rest\<close>
  "eat_digits 0 s = Some s"
| "eat_digits (Suc k) [] = None"
| "eat_digits (Suc k) (c # cs) = (if isdigit c then eat_digits k cs else None)"

fun eat_char :: "char \<Rightarrow> string \<Rightarrow> string option" where
  "eat_char c [] = None"
| "eat_char c (x # xs) = (if x = c then Some xs else None)"

fun eat_seq :: "(string \<Rightarrow> string option) list \<Rightarrow> string \<Rightarrow> string option" where
  "eat_seq [] s = Some s"
| "eat_seq (p # ps) s = (case p s of None \<Rightarrow> None | Some r \<Rightarrow> eat_seq ps r)"

definition iso8601_utc :: "string \<Rightarrow> bool" where
  "iso8601_utc s =
     (case eat_seq [eat_digits 4, eat_char CHR ''-'', eat_digits 2, eat_char CHR ''-'', eat_digits 2,
                    eat_char CHR ''T'', eat_digits 2, eat_char CHR '':'', eat_digits 2,
                    eat_char CHR '':'', eat_digits 2] s of
        None \<Rightarrow> False
      | Some r \<Rightarrow> r = ''Z'' \<or> eat_seq [eat_char CHR ''.'', eat_digits 6] r = Some ''Z'')"

section \<open>\<open>fetch_page\<close>: the transport, the clock and the retry loop\<close>

text \<open>
  The network is the only state the scraper has. It is modelled by the history of what
  the run has done so far: every \<open>session.get\<close> with its outcome, and every
  \<open>time.sleep\<close>. A transport is any function that gives the outcome of the next request
  from that history and the request's arguments, so that a server may answer the same
  URL differently each time. \<open>raise_for_status\<close> raises for the status codes 400 to 599;
  \<open>time.sleep\<close> raises \<open>ValueError\<close> for a negative duration.
\<close>

record response =
  status_code :: int
  resp_text :: string

datatype outcome = Raises py_exception | Returns response

type_synonym query_params = "(string \<times> string) list option"

datatype event = Request string query_params real outcome | Sleep real

type_synonym transport = "event list \<Rightarrow> string \<Rightarrow> query_params \<Rightarrow> real \<Rightarrow> outcome"

record retry_config =
  retries :: int
  backoff_factor :: real
  timeout :: real

definition RetryConfig :: retry_config where
  \<comment> \<open>the defaults of the dataclass\<close>
  "RetryConfig = \<lparr>retries = 3, backoff_factor = 0.5, timeout = 20.0\<rparr>"

definition raise_for_status :: "response \<Rightarrow> py_exception + unit" where
  "raise_for_status r = (if 400 \<le> status_code r \<and> status_code r < 600 then Inl HTTPError else Inr ())"

definition time_sleep :: "real \<Rightarrow> event list \<Rightarrow> py_exception + event list" where
  "time_sleep secs hist = (if secs < 0 then Inl ValueError else Inr (hist @ [Sleep secs]))"

definition attempt_result :: "outcome \<Rightarrow> py_exception + string" where
  \<comment> \<open>the \<open>try\<close> block of \<open>fetch_page\<close>: \<open>session.get\<close>, \<open>raise_for_status\<close>, \<open>response.text\<close>\<close>
  "attempt_result out =
     (case out of
        Raises e \<Rightarrow> Inl e
      | Returns r \<Rightarrow> (case raise_for_status r of Inl e \<Rightarrow> Inl e | Inr u \<Rightarrow> Inr (resp_text r)))"

function fetch_loop ::
  "transport \<Rightarrow> string \<Rightarrow> query_params \<Rightarrow> retry_config \<Rightarrow> int \<Rightarrow> event list
     \<Rightarrow> (py_exception + string) \<times> event list" where
  \<comment> \<open>the \<open>while attempt <= retry_config.retries\<close> loop and the \<open>return ""\<close> after it\<close>
  "fetch_loop tr url params cfg attempt hist =
     (if attempt \<le> retries cfg then
        (let out = tr hist url params (timeout cfg);
             hist1 = hist @ [Request url params (timeout cfg) out]
         in case attempt_result out of
              Inr body \<Rightarrow> (Inr body, hist1)
            | Inl exc \<Rightarrow>
                if attempt \<ge> retries cfg then (Inr [], hist1)
                else (let delay = backoff_factor cfg * 2 ^ nat attempt
                      in case time_sleep delay hist1 of
                           Inl e \<Rightarrow> (Inl e, hist1)
                         | Inr hist2 \<Rightarrow> fetch_loop tr url params cfg (attempt + 1) hist2))
      else (Inr [], hist))"
  by pat_completeness auto
termination
  by (relation "measure (\<lambda>(tr, url, params, cfg, attempt, hist). nat (retries cfg + 1 - attempt))") auto

declare fetch_loop.simps [simp del]

definition fetch_page ::
  "transport \<Rightarrow> string \<Rightarrow> query_params \<Rightarrow> retry_config option \<Rightarrow> event list
     \<Rightarrow> (py_exception + string) \<times> event list" where
  "fetch_page tr url params retry_config hist =
     (let cfg = (case retry_config of Some c \<Rightarrow> c | None \<Rightarrow> RetryConfig)
      in fetch_loop tr url params cfg 0 hist)"

subsection \<open>Observing a run of \<open>fetch_page\<close>\<close>





section \<open>main.py: the crawl orchestrator\<close>

definition detail_one ::
  "'e libs \<Rightarrow> transport \<Rightarrow> company_summary \<Rightarrow> event list
     \<Rightarrow> (py_exception + company_summary) \<times> event list" where
  \<comment> \<open>the body of \<open>for company in companies_on_page\<close>, giving the company as the loop leaves it\<close>
  "detail_one L tr company hist =
     (let details_url = cs_details_url company
      in if \<not> truthy details_url then (Inr company, hist)
         else
           (case fetch_page tr (the details_url) None None hist of
              (Inl e, hist1) \<Rightarrow> (Inl e, hist1)
            | (Inr details_html, hist1) \<Rightarrow>
                if details_html = [] then (Inr company, hist1)
                else (case parse_company_details L details_html (cs_company_id company) of
                        Inl e \<Rightarrow> (Inl e, hist1)
                      | Inr details_data \<Rightarrow>
                          (Inr (company\<lparr>cs_details := Some details_data\<rparr>), hist1))))"

fun detail_pass ::
  "'e libs \<Rightarrow> transport \<Rightarrow> company_summary list \<Rightarrow> event list
     \<Rightarrow> (py_exception + company_summary list) \<times> event list" where
  \<comment> \<open>the loop \<open>for company in companies_on_page\<close>\<close>
  "detail_pass L tr [] hist = (Inr [], hist)"
| "detail_pass L tr (company # rest) hist =
     (case detail_one L tr company hist of
        (Inl e, hist1) \<Rightarrow> (Inl e, hist1)
      | (Inr company1, hist1) \<Rightarrow>
          (case detail_pass L tr rest hist1 of
             (Inl e, hist2) \<Rightarrow> (Inl e, hist2)
           | (Inr rest1, hist2) \<Rightarrow> (Inr (company1 # rest1), hist2)))"

partial_function (option) company_loop ::
  "'e libs \<Rightarrow> transport \<Rightarrow> string \<Rightarrow> string \<Rightarrow> string \<Rightarrow> string \<Rightarrow> int \<Rightarrow> bool \<Rightarrow> int
     \<Rightarrow> company_summary list \<Rightarrow> event list
     \<Rightarrow> ((py_exception + company_summary list) \<times> event list) option" where
  \<comment> \<open>the \<open>while True\<close> loop of \<open>scrape_company_mode\<close>; \<open>None\<close> is a loop that never ends\<close>
  "company_loop L tr base_url query region language max_pages include_details page all_companies hist =
     (let search_url = build_search_url (lib_urljoin L) base_url query ''company'' region language page
      in case fetch_page tr search_url None None hist of
           (Inl e, hist1) \<Rightarrow> Some (Inl e, hist1)
         | (Inr html_text, hist1) \<Rightarrow>
             if html_text = [] then Some (Inr all_companies, hist1)
             else
               (case parse_company_list L html_text base_url of
                  Inl e \<Rightarrow> Some (Inl e, hist1)
                | Inr companies_on_page \<Rightarrow>
                    if companies_on_page = [] then Some (Inr all_companies, hist1)
                    else
                      (case (if include_details then detail_pass L tr companies_on_page hist1
                             else (Inr companies_on_page, hist1)) of
                         (Inl e, hist2) \<Rightarrow> Some (Inl e, hist2)
                       | (Inr companies_done, hist2) \<Rightarrow>
                           if max_pages \<noteq> 0 \<and> max_pages > 0 \<and> page \<ge> max_pages
                           then Some (Inr (all_companies @ companies_done), hist2)
                           else company_loop L tr base_url query region language max_pages
                                  include_details (page + 1) (all_companies @ companies_done) hist2)))"

definition scrape_company_mode ::
  "'e libs \<Rightarrow> transport \<Rightarrow> string \<Rightarrow> string \<Rightarrow> string \<Rightarrow> string \<Rightarrow> int \<Rightarrow> bool \<Rightarrow> event list
     \<Rightarrow> ((py_exception + company_summary list) \<times> event list) option" where
  "scrape_company_mode L tr base_url query region language max_pages include_details hist =
     company_loop L tr base_url query region language max_pages include_details 1 [] hist"



section \<open>The crawl in the words of the specification\<close>

text \<open>
  What one iteration of a crawl loop finds on a page, in the order the specification
  gives: (a) the fetch returned the empty string; (b) the fetch returned a page and the
  extraction found no record; otherwise the page's records, which in company mode with
  the detail pass enabled are the summaries after that pass. Every outcome carries the
  history the iteration leaves. An exception, which no library call of the loop body
  raises, would be the fourth outcome.
\<close>

datatype 'r page_step =
  FetchFailed "event list"
| NoRecords "event list"
| PageRecords "'r list" "event list"
| PageRaised py_exception "event list"

definition company_listing ::
  "'e libs \<Rightarrow> transport \<Rightarrow> string \<Rightarrow> string \<Rightarrow> string \<Rightarrow> string \<Rightarrow> int \<Rightarrow> event list
     \<Rightarrow> company_summary page_step" where
  \<comment> \<open>the results page \<open>page\<close>, fetched and parsed\<close>
  "company_listing L tr base_url query region language page hist =
     (case fetch_page tr (build_search_url (lib_urljoin L) base_url query ''company'' region language page)
             None None hist of
        (Inl e, hist1) \<Rightarrow> PageRaised e hist1
      | (Inr html_text, hist1) \<Rightarrow>
          if html_text = [] then FetchFailed hist1
          else (case parse_company_list L html_text base_url of
                  Inl e \<Rightarrow> PageRaised e hist1
                | Inr companies_on_page \<Rightarrow>
                    if companies_on_page = [] then NoRecords hist1
                    else PageRecords companies_on_page hist1))"

definition company_page ::
  "'e libs \<Rightarrow> transport \<Rightarrow> string \<Rightarrow> string \<Rightarrow> string \<Rightarrow> string \<Rightarrow> bool \<Rightarrow> int \<Rightarrow> event list
     \<Rightarrow> company_summary page_step" where
  \<comment> \<open>the results page \<open>page\<close> after the detail pass\<close>
  "company_page L tr base_url query region language include_details page hist =
     (case company_listing L tr base_url query region language page hist of
        PageRecords companies_on_page hist1 \<Rightarrow>
          if include_details
          then (case detail_pass L tr companies_on_page hist1 of
                  (Inl e, hist2) \<Rightarrow> PageRaised e hist2
                | (Inr companies_done, hist2) \<Rightarrow> PageRecords companies_done hist2)
          else PageRecords companies_on_page hist1
      | FetchFailed hist1 \<Rightarrow> FetchFailed hist1
      | NoRecords hist1 \<Rightarrow> NoRecords hist1
      | PageRaised e hist1 \<Rightarrow> PageRaised e hist1)"


text \<open>
  A crawl that starts at page \<open>p\<close> with history \<open>hist\<close> and visits the pages
  \<open>p, p + 1, p + 2, ...\<close>: \<open>crawl_from step p hist k\<close> is the list accumulated and the
  history left by the first \<open>k\<close> pages, each page's records appended in page order;
  \<open>visit step p hist k\<close> is what the crawl finds on page \<open>p + k\<close>; \<open>stops_at\<close> holds when
  one of the three conditions ends the crawl there: (a) and (b) always, (c) when the page
  has records, \<open>max_pages\<close> is positive and the page number has reached it;
  \<open>crawl_result\<close> is what the crawl then returns.
\<close>

fun page_records :: "'r page_step \<Rightarrow> 'r list" where
  "page_records (PageRecords rs h) = rs"
| "page_records (FetchFailed h) = []"
| "page_records (NoRecords h) = []"
| "page_records (PageRaised e h) = []"

fun page_hist :: "'r page_step \<Rightarrow> event list" where
  "page_hist (PageRecords rs h) = h"
| "page_hist (FetchFailed h) = h"
| "page_hist (NoRecords h) = h"
| "page_hist (PageRaised e h) = h"

fun crawl_from :: "(int \<Rightarrow> event list \<Rightarrow> 'r page_step) \<Rightarrow> int \<Rightarrow> event list \<Rightarrow> nat \<Rightarrow> 'r list \<times> event list" where
  "crawl_from step p hist 0 = ([], hist)"
| "crawl_from step p hist (Suc k) =
     (let (acc, h) = crawl_from step p hist k;
          found = step (p + int k) h
      in (acc @ page_records found, page_hist found))"

definition visit :: "(int \<Rightarrow> event list \<Rightarrow> 'r page_step) \<Rightarrow> int \<Rightarrow> event list \<Rightarrow> nat \<Rightarrow> 'r page_step" where
  "visit step p hist k = step (p + int k) (snd (crawl_from step p hist k))"

definition stops_at :: "(int \<Rightarrow> event list \<Rightarrow> 'r page_step) \<Rightarrow> int \<Rightarrow> int \<Rightarrow> event list \<Rightarrow> nat \<Rightarrow> bool" where
  "stops_at step max_pages p hist k =
     (case visit step p hist k of
        FetchFailed h \<Rightarrow> True
      | NoRecords h \<Rightarrow> True
      | PageRecords rs h \<Rightarrow> 0 < max_pages \<and> max_pages \<le> p + int k
      | PageRaised e h \<Rightarrow> True)"

definition crawl_result ::
  "(int \<Rightarrow> event list \<Rightarrow> 'r page_step) \<Rightarrow> int \<Rightarrow> event list \<Rightarrow> nat \<Rightarrow> (py_exception + 'r list) \<times> event list" where
  "crawl_result step p hist k =
     (case visit step p hist k of
        FetchFailed h \<Rightarrow> (Inr (fst (crawl_from step p hist k)), h)
      | NoRecords h \<Rightarrow> (Inr (fst (crawl_from step p hist k)), h)
      | PageRecords rs h \<Rightarrow> (Inr (fst (crawl_from step p hist k) @ rs), h)
      | PageRaised e h \<Rightarrow> (Inl e, h))"

section \<open>Example pages\<close>

text \<open>
  Concrete inputs for the examples of the specification. \<open>example_libs\<close> is a scripted
  stand-in for the libraries: elements are named by strings, the document of an HTML
  text is the element named by that text, and three tables give what each selector
  finds under each element, the attributes and the text of each element. Its \<open>urljoin\<close>
  appends a path to a base without a trailing slash; its pages hold no text node with a
  marker word.
\<close>

definition example_libs ::
  "((string \<times> string) \<times> string list) list \<Rightarrow> ((string \<times> string) \<times> string) list
     \<Rightarrow> (string \<times> string) list \<Rightarrow> string libs" where
  "example_libs sels attrs texts =
     \<lparr>lib_urljoin = (\<lambda>base u. base @ u),
      bs_parse = (\<lambda>html. html),
      bs_select = (\<lambda>e s. case map_of sels (e, s) of Some xs \<Rightarrow> xs | None \<Rightarrow> []),
      bs_select_one = (\<lambda>e s. case map_of sels (e, s) of Some (x # xs) \<Rightarrow> Some x | _ \<Rightarrow> None),
      bs_find = (\<lambda>e s. case map_of sels (e, s) of Some (x # xs) \<Rightarrow> Some x | _ \<Rightarrow> None),
      bs_find_all = (\<lambda>e s. case map_of sels (e, s) of Some xs \<Rightarrow> xs | None \<Rightarrow> []),
      bs_find_string = (\<lambda>e p. None),
      bs_attr = (\<lambda>e a. map_of attrs (e, a)),
      bs_get_text = (\<lambda>e sep strip. case map_of texts e of Some t \<Rightarrow> t | None \<Rightarrow> [])\<rparr>"


text \<open>
  A results page with one card,
  \<^verbatim>\<open><div class="company-card"><h2>ACME GmbH</h2><a href="/firmen/acme-gmbh-4711">Profil</a></div>\<close>:
  no data attribute, no address element.
\<close>

definition acme_page :: "string libs" where
  "acme_page = example_libs
     [((''search.html'', ''[data-test='company-result-card'], article.company-item, div.company-card''),
         [''card1'']),
      ((''card1'', ''h2''), [''title1'']),
      ((''card1'', ''a[href*='/firmen/']''), [''link1'']),
      ((''card1'', ''a''), [''link1''])]
     [((''link1'', ''href''), ''/firmen/acme-gmbh-4711'')]
     [(''title1'', ''ACME GmbH''), (''link1'', ''Profil'')]"



text \<open>The record of the ACME card, and those of two more cards: one for Bolt AG, linked
  to \<open>/firmen/bolt-ag-12\<close>, and one for Cord KG, which has no link.\<close>

definition acme_summary :: company_summary where
  "acme_summary =
     \<lparr>cs_company_id = Some ''4711'', cs_name = Some ''ACME GmbH'', cs_email = None,
      cs_phone_number = None, cs_homepage = None,
      cs_address = Some \<lparr>addr_street = None, addr_postal_code = None, addr_city = None,
                          addr_country_code = None, addr_full = Some []\<rparr>,
      cs_employee_count = None, cs_founding_year = None, cs_description = None,
      cs_region = None, cs_logo_url = None,
      cs_details_url = Some ''https://www.wlw.de/firmen/acme-gmbh-4711'', cs_details = None\<rparr>"

definition bolt_summary :: company_summary where
  "bolt_summary =
     \<lparr>cs_company_id = Some ''12'', cs_name = Some ''Bolt AG'', cs_email = None,
      cs_phone_number = None, cs_homepage = None,
      cs_address = Some \<lparr>addr_street = None, addr_postal_code = None, addr_city = None,
                          addr_country_code = None, addr_full = Some []\<rparr>,
      cs_employee_count = None, cs_founding_year = None, cs_description = None,
      cs_region = None, cs_logo_url = None,
      cs_details_url = Some ''https://www.wlw.de/firmen/bolt-ag-12'', cs_details = None\<rparr>"

definition cord_summary :: company_summary where
  "cord_summary =
     \<lparr>cs_company_id = None, cs_name = Some ''Cord KG'', cs_email = None,
      cs_phone_number = None, cs_homepage = None,
      cs_address = Some \<lparr>addr_street = None, addr_postal_code = None, addr_city = None,
                          addr_country_code = None, addr_full = Some []\<rparr>,
      cs_employee_count = None, cs_founding_year = None, cs_description = None,
      cs_region = None, cs_logo_url = None, cs_details_url = None, cs_details = None\<rparr>"

definition acme_profile :: company_details where
  "acme_profile =
     \<lparr>cd_company_id = Some ''4711'', cd_name = Some ''ACME GmbH'', cd_email = None,
      cd_phone_number = None, cd_homepage = None,
      cd_address = \<lparr>addr_street = None, addr_postal_code = None, addr_city = None,
                     addr_country_code = None, addr_full = None\<rparr>,
      cd_employee_count = None, cd_founding_year = None, cd_description = None,
      cd_products = [], cd_contacts = [], cd_certificates = []\<rparr>"


text \<open>
  A results page \<open>listing.html\<close> with the three cards, and the profile page
  \<open>profile.html\<close> of ACME, which holds only the heading \<open>ACME GmbH\<close>. On the site, the
  listing is page 1 of the query, ACME's profile is served, and every other URL fails,
  Bolt's profile among them.
\<close>

definition catalog_page :: "string libs" where
  "catalog_page = example_libs
     [((''listing.html'', ''[data-test='company-result-card'], article.company-item, div.company-card''),
         [''card1'', ''card2'', ''card3'']),
      ((''card1'', ''h2''), [''title1'']),
      ((''card1'', ''a[href*='/firmen/']''), [''link1'']),
      ((''card1'', ''a''), [''link1'']),
      ((''card2'', ''h2''), [''title2'']),
      ((''card2'', ''a[href*='/firmen/']''), [''link2'']),
      ((''card2'', ''a''), [''link2'']),
      ((''card3'', ''h2''), [''title3'']),
      ((''profile.html'', ''h1''), [''heading1''])]
     [((''link1'', ''href''), ''/firmen/acme-gmbh-4711''),
      ((''link2'', ''href''), ''/firmen/bolt-ag-12'')]
     [(''title1'', ''ACME GmbH''), (''title2'', ''Bolt AG''), (''title3'', ''Cord KG''),
      (''link1'', ''Profil''), (''link2'', ''Profil''), (''heading1'', ''ACME GmbH'')]"

definition catalog_site :: transport where
  "catalog_site hist url params tmo =
     (if url = ''https://www.wlw.de/de/firmen/?q=Aufzug&page=1&country=DE''
      then Returns \<lparr>status_code = 200, resp_text = ''listing.html''\<rparr>
      else if url = ''https://www.wlw.de/firmen/acme-gmbh-4711''
      then Returns \<lparr>status_code = 200, resp_text = ''profile.html''\<rparr>
      else Raises RequestException)"

section \<open>Properties of the string and number helpers\<close>

lemma lt10: "d < 10 \<Longrightarrow> d \<in> {0, 1, 2, 3, 4, 5, 6, 7, 8, 9::nat}"
  by auto

lemma isdigit_digit_char: "d < 10 \<Longrightarrow> isdigit (digit_char d)"
  by (drule lt10) (auto simp: isdigit_def digit_char_def)

lemma str_nat_digits: "c \<in> set (str_nat n) \<Longrightarrow> isdigit c"
proof (induction n arbitrary: c rule: str_nat.induct)
  case (1 n)
  show ?case
  proof (cases "n < 10")
    case True
    with "1.prems" show ?thesis by (subst (asm) str_nat.simps) (simp add: isdigit_digit_char)
  next
    case False
    with "1.prems" have "c \<in> set (str_nat (n div 10)) \<or> c = digit_char (n mod 10)"
      by (subst (asm) str_nat.simps) auto
    then show ?thesis using "1.IH"[OF False] by (auto simp: isdigit_digit_char)
  qed
qed






subsection \<open>Splitting on whitespace and on a separator\<close>

lemma isspace_space: "isspace CHR '' ''"
  by (simp add: isspace_def)

lemma split_ws_nonspace:
  "\<forall>c \<in> set x. \<not> isspace c \<Longrightarrow> split_ws cur (x @ rest) = split_ws (cur @ x) rest"
  by (induction x arbitrary: cur) simp_all

lemma split_ws_tokens:
  "t \<in> set (split_ws cur s) \<Longrightarrow> \<forall>c \<in> set cur. \<not> isspace c
     \<Longrightarrow> t \<noteq> [] \<and> (\<forall>c \<in> set t. \<not> isspace c)"
proof (induction s arbitrary: cur)
  case Nil
  then show ?case by (auto split: if_splits)
next
  case (Cons a s)
  show ?case
  proof (cases "isspace a")
    case True
    with Cons.prems have "t = cur \<and> cur \<noteq> [] \<or> t \<in> set (split_ws [] s)"
      by (auto split: if_splits)
    then show ?thesis
    proof
      assume "t = cur \<and> cur \<noteq> []"
      with Cons.prems(2) show ?thesis by simp
    next
      assume "t \<in> set (split_ws [] s)"
      then show ?thesis using Cons.IH[of "[]"] by simp
    qed
  next
    case False
    with Cons.prems have "t \<in> set (split_ws (cur @ [a]) s)" by simp
    moreover have "\<forall>c \<in> set (cur @ [a]). \<not> isspace c" using False Cons.prems(2) by simp
    ultimately show ?thesis using Cons.IH[of "cur @ [a]"] by blast
  qed
qed

lemma py_split_tokens: "t \<in> set (py_split s) \<Longrightarrow> t \<noteq> [] \<and> (\<forall>c \<in> set t. \<not> isspace c)"
  unfolding py_split_def using split_ws_tokens[of t "[]" s] by simp

lemma py_split_join:
  "\<forall>t \<in> set ts. t \<noteq> [] \<and> (\<forall>c \<in> set t. \<not> isspace c) \<Longrightarrow> py_split (py_join '' '' ts) = ts"
proof (induction "'' ''" ts rule: py_join.induct)
  case 1
  then show ?case by (simp add: py_split_def)
next
  case (2 x)
  then have "split_ws [] (x @ []) = split_ws ([] @ x) []" by (intro split_ws_nonspace) simp
  with 2 show ?case by (simp add: py_split_def)
next
  case (3 x y ys)
  have x: "x \<noteq> []" "\<forall>c \<in> set x. \<not> isspace c" using 3 by simp_all
  have "split_ws [] (x @ '' '' @ py_join '' '' (y # ys)) = split_ws ([] @ x) ('' '' @ py_join '' '' (y # ys))"
    using x(2) by (rule split_ws_nonspace)
  also have "\<dots> = x # split_ws [] (py_join '' '' (y # ys))"
    using x(1) by (simp add: isspace_space)
  also have "split_ws [] (py_join '' '' (y # ys)) = y # ys"
    using 3 by (simp add: py_split_def)
  finally show ?case by (simp add: py_split_def)
qed

lemma normalize_whitespace_join: "normalize_whitespace t = py_join '' '' (py_split t)"
  by (simp add: normalize_whitespace_def py_split_def)

lemma py_split_normalize: "py_split (normalize_whitespace t) = py_split t"
  unfolding normalize_whitespace_join
  by (rule py_split_join) (use py_split_tokens in blast)

lemma normalize_nonempty_tokens: "normalize_whitespace t \<noteq> [] \<Longrightarrow> py_split (normalize_whitespace t) \<noteq> []"
  unfolding py_split_normalize by (auto simp: normalize_whitespace_join)

lemma split_ws_cur_nonempty: "cur \<noteq> [] \<Longrightarrow> split_ws cur s \<noteq> []"
  by (induction s arbitrary: cur) auto

lemma split_ws_nonempty: "\<exists>c \<in> set s. \<not> isspace c \<Longrightarrow> split_ws cur s \<noteq> []"
proof (induction s arbitrary: cur)
  case Nil
  then show ?case by simp
next
  case (Cons a s)
  then show ?case by (cases "isspace a") (auto simp: split_ws_cur_nonempty)
qed

lemma strip_pred_nonempty: "strip_pred p s \<noteq> [] \<Longrightarrow> \<exists>c \<in> set (strip_pred p s). \<not> p c"
proof -
  assume a: "strip_pred p s \<noteq> []"
  let ?d = "dropWhile p (rev (dropWhile p s))"
  from a have ne: "?d \<noteq> []" by (simp add: strip_pred_def)
  then have "\<not> p (hd ?d)" by (rule hd_dropWhile)
  moreover have "hd ?d \<in> set ?d" using ne by simp
  ultimately show ?thesis by (auto simp: strip_pred_def)
qed

lemma py_split_strip_nonempty: "py_strip p \<noteq> [] \<Longrightarrow> py_split (py_strip p) \<noteq> []"
  unfolding py_strip_def py_split_def
  by (intro split_ws_nonempty strip_pred_nonempty)

lemma split_sep_nonempty: "split_sep sep cur s \<noteq> []"
  by (induction s arbitrary: cur) auto

lemma py_last_split_on: "py_last (py_split_on sep s) = Inr (last (py_split_on sep s))"
  by (simp add: py_last_def py_split_on_def split_sep_nonempty)

section \<open>The search URL\<close>


section \<open>The export payload\<close>

lemma length_str_nat: "n < 10 ^ w \<Longrightarrow> 0 < w \<Longrightarrow> length (str_nat n) \<le> w"
proof (induction n arbitrary: w rule: str_nat.induct)
  case (1 n)
  show ?case
  proof (cases "n < 10")
    case True
    then have "str_nat n = [digit_char n]" by (subst str_nat.simps) simp
    with "1.prems" show ?thesis by simp
  next
    case False
    then have eq: "str_nat n = str_nat (n div 10) @ [digit_char (n mod 10)]"
      by (subst str_nat.simps) simp
    obtain v where w: "w = Suc v" using "1.prems"(2) by (cases w) auto
    have "v \<noteq> 0" using False "1.prems"(1) w by (cases v) auto
    moreover have "n div 10 < 10 ^ v" using "1.prems"(1) w by (simp add: less_mult_imp_div_less mult.commute)
    ultimately have "length (str_nat (n div 10)) \<le> v" using "1.IH"[OF False, of v] by simp
    then show ?thesis by (simp add: eq w)
  qed
qed

lemma digits_zero_pad: "n < 10 ^ w \<Longrightarrow> 0 < w \<Longrightarrow> digits w (zero_pad w n)"
proof -
  assume a: "n < 10 ^ w" "0 < w"
  have z: "isdigit CHR ''0''" by (simp add: isdigit_def)
  have "length (str_nat n) \<le> w" using a by (rule length_str_nat)
  then show ?thesis
    unfolding digits_def zero_pad_def
    by (auto simp: list_all_iff z str_nat_digits)
qed

lemma eat_digits_append: "digits k xs \<Longrightarrow> eat_digits k (xs @ r) = Some r"
proof (induction k arbitrary: xs)
  case 0
  then show ?case by (simp add: digits_def)
next
  case (Suc k)
  then obtain c cs where xs: "xs = c # cs" by (cases xs) (auto simp: digits_def)
  with Suc.prems have "isdigit c" "digits k cs" by (simp_all add: digits_def)
  with Suc.IH[of cs] show ?case by (simp add: xs)
qed

lemma iso_shape:
  assumes "digits 4 y" "digits 2 mo" "digits 2 d" "digits 2 h" "digits 2 mi" "digits 2 s"
    and "fr = [] \<or> (\<exists>f. digits 6 f \<and> fr = ''.'' @ f)"
  shows "iso8601_utc (y @ ''-'' @ mo @ ''-'' @ d @ ''T'' @ h @ '':'' @ mi @ '':'' @ s @ fr @ ''Z'')"
proof -
  note e = eat_digits_append[OF assms(1)] eat_digits_append[OF assms(2)] eat_digits_append[OF assms(3)]
    eat_digits_append[OF assms(4)] eat_digits_append[OF assms(5)] eat_digits_append[OF assms(6)]
  have main: "eat_seq [eat_digits 4, eat_char CHR ''-'', eat_digits 2, eat_char CHR ''-'', eat_digits 2,
                    eat_char CHR ''T'', eat_digits 2, eat_char CHR '':'', eat_digits 2,
                    eat_char CHR '':'', eat_digits 2]
          (y @ ''-'' @ mo @ ''-'' @ d @ ''T'' @ h @ '':'' @ mi @ '':'' @ s @ fr @ ''Z'') = Some (fr @ ''Z'')"
    by (simp add: e)
  from assms(7) have "fr @ ''Z'' = ''Z'' \<or> eat_seq [eat_char CHR ''.'', eat_digits 6] (fr @ ''Z'') = Some ''Z''"
  proof
    assume "fr = []" then show ?thesis by simp
  next
    assume "\<exists>f. digits 6 f \<and> fr = ''.'' @ f"
    then obtain f where f: "digits 6 f" "fr = ''.'' @ f" by auto
    show ?thesis by (simp add: f(2) eat_digits_append[OF f(1)])
  qed
  then show ?thesis unfolding iso8601_utc_def main by simp
qed

lemma iso8601_isoformat: "valid_datetime d \<Longrightarrow> iso8601_utc (isoformat d @ ''Z'')"
proof -
  assume v: "valid_datetime d"
  have y: "digits 4 (zero_pad 4 (dt_year d))" using v by (intro digits_zero_pad) (simp_all add: valid_datetime_def)
  have mo: "digits 2 (zero_pad 2 (dt_month d))" using v by (intro digits_zero_pad) (simp_all add: valid_datetime_def)
  have dd: "digits 2 (zero_pad 2 (dt_day d))" using v by (intro digits_zero_pad) (simp_all add: valid_datetime_def)
  have h: "digits 2 (zero_pad 2 (dt_hour d))" using v by (intro digits_zero_pad) (simp_all add: valid_datetime_def)
  have mi: "digits 2 (zero_pad 2 (dt_minute d))" using v by (intro digits_zero_pad) (simp_all add: valid_datetime_def)
  have s: "digits 2 (zero_pad 2 (dt_second d))" using v by (intro digits_zero_pad) (simp_all add: valid_datetime_def)
  have us: "digits 6 (zero_pad 6 (dt_microsecond d))" using v by (intro digits_zero_pad) (simp_all add: valid_datetime_def)
  have "iso8601_utc (zero_pad 4 (dt_year d) @ ''-'' @ zero_pad 2 (dt_month d) @ ''-'' @ zero_pad 2 (dt_day d) @ ''T'' @
     zero_pad 2 (dt_hour d) @ '':'' @ zero_pad 2 (dt_minute d) @ '':'' @ zero_pad 2 (dt_second d) @
     (if dt_microsecond d \<noteq> 0 then ''.'' @ zero_pad 6 (dt_microsecond d) else []) @ ''Z'')"
    by (rule iso_shape[OF y mo dd h mi s]) (use us in auto)
  then show ?thesis by (simp add: isoformat_def)
qed


text \<open>
  Claim C9. For every list of records and every value of the clock, the payload that
  \<open>export_to_json\<close> writes has \<open>record_count\<close> equal to the length of \<open>data\<close>, \<open>data\<close>
  equal to the records in their order, and \<open>exported_at\<close> equal to the clock's
  \<open>isoformat\<close> followed by \<open>Z\<close>: a string of the ISO-8601 shape that ends in \<open>Z\<close>.
  Three records give the count 3 and a \<open>data\<close> of length 3.
\<close>

theorem export_payload_invariant:
  assumes "valid_datetime utcnow"
  shows "\<exists>p. export_to_json utcnow records path fs path = Some p
           \<and> record_count (meta p) = length (data p)
           \<and> data p = records
           \<and> exported_at (meta p) = isoformat utcnow @ ''Z''
           \<and> iso8601_utc (exported_at (meta p))
           \<and> last (exported_at (meta p)) = CHR ''Z''"
  using iso8601_isoformat[OF assms] by (simp add: export_to_json_def)

theorem export_payload_invariant_witness:
  "valid_datetime \<lparr>dt_year = 2024, dt_month = 5, dt_day = 17, dt_hour = 9, dt_minute = 30,
                    dt_second = 0, dt_microsecond = 123456\<rparr>
   \<and> (\<exists>p. export_to_json \<lparr>dt_year = 2024, dt_month = 5, dt_day = 17, dt_hour = 9, dt_minute = 30,
                    dt_second = 0, dt_microsecond = 123456\<rparr> [''a'', ''b'', ''c''] ''data/out.json'' Map.empty ''data/out.json'' = Some p
        \<and> record_count (meta p) = 3 \<and> length (data p) = 3
        \<and> exported_at (meta p) = ''2024-05-17T09:30:00.123456Z'')"
proof -
  define dt where "dt = \<lparr>dt_year = 2024, dt_month = 5, dt_day = 17, dt_hour = 9, dt_minute = 30,
                    dt_second = 0, dt_microsecond = 123456\<rparr>"
  have v: "valid_datetime dt"
    by (simp add: valid_datetime_def dt_def)
  have i: "isoformat dt = ''2024-05-17T09:30:00.123456''"
    unfolding dt_def by (simp add: isoformat_def zero_pad_def str_nat.simps digit_char_def)
  obtain p where p: "export_to_json dt [''a'', ''b'', ''c''] ''data/out.json'' Map.empty ''data/out.json'' = Some p"
    "record_count (meta p) = length (data p)" "data p = [''a'', ''b'', ''c'']"
    "exported_at (meta p) = isoformat dt @ ''Z''"
    using export_payload_invariant[OF v, of "[''a'', ''b'', ''c'']" "''data/out.json''" Map.empty] by blast
  have "record_count (meta p) = 3" "length (data p) = 3" "exported_at (meta p) = ''2024-05-17T09:30:00.123456Z''"
    using p(2,3,4) i by simp_all
  with v p(1) show ?thesis unfolding dt_def by blast
qed

section \<open>The company details page\<close>

lemma address_breakdown_Inr: "\<exists>r. address_breakdown a = Inr r"
proof -
  let ?parts = "map py_strip (filter (\<lambda>p. py_strip p \<noteq> []) (py_split_on CHR '','' a))"
  have "py_split (last ?parts) \<noteq> []" if "?parts \<noteq> []"
  proof -
    have "last ?parts \<in> set ?parts" using that by (rule last_in_set)
    then obtain p where "last ?parts = py_strip p" "py_strip p \<noteq> []" by auto
    then show ?thesis using py_split_strip_nonempty[of p] by simp
  qed
  moreover have "?parts \<noteq> []" if "3 \<le> length ?parts"
    using that by (cases ?parts) simp_all
  ultimately have "3 \<le> length ?parts \<Longrightarrow> py_last (py_split (last ?parts)) = Inr (last (py_split (last ?parts)))"
    unfolding py_last_def by (simp del: map_is_Nil_conv)
  then show ?thesis
    unfolding address_breakdown_def Let_def by (cases "3 \<le> length ?parts") auto
qed

lemma parse_company_details_Inr:
  "\<exists>d street postal_code city country_code.
     parse_company_details L html company_id = Inr d
     \<and> cd_contacts d =
         map (parse_contact L) (bs_select L (bs_parse L html) ''[data-test='contact-person'], .contact-person'')
     \<and> address_breakdown (extract_text L
          (el_or (bs_select_one L (bs_parse L html) ''[data-test='company-address']'')
             (el_or (bs_select_one L (bs_parse L html) ''address'')
                (bs_select_one L (bs_parse L html) ''.address'')))) = Inr (street, postal_code, city, country_code)
     \<and> cd_address d = \<lparr>addr_street = street, addr_postal_code = postal_code, addr_city = city,
           addr_country_code = country_code,
           addr_full = or_none (extract_text L
          (el_or (bs_select_one L (bs_parse L html) ''[data-test='company-address']'')
             (el_or (bs_select_one L (bs_parse L html) ''address'')
                (bs_select_one L (bs_parse L html) ''.address''))))\<rparr>"
proof -
  obtain r where "address_breakdown (extract_text L
          (el_or (bs_select_one L (bs_parse L html) ''[data-test='company-address']'')
             (el_or (bs_select_one L (bs_parse L html) ''address'')
                (bs_select_one L (bs_parse L html) ''.address'')))) = Inr r"
    using address_breakdown_Inr by blast
  then show ?thesis
    unfolding parse_company_details_def Let_def
    by (cases r) (simp split: prod.splits)
qed










section \<open>The company results page\<close>

lemma link_company_id_eq:
  "link_company_id L dl href =
     Inr (if truthy (bs_attr L dl ''data-id'') then bs_attr L dl ''data-id''
          else Some (last (py_split_on CHR ''-'' (py_strip_chars ''/'' href))))"
  by (simp add: link_company_id_def py_last_split_on)

lemma collect_Inr:
  "\<forall>x \<in> set xs. \<exists>y. f x = Inr y
     \<Longrightarrow> \<exists>ys. collect f xs = Inr ys \<and> length ys = length xs \<and> (\<forall>i < length xs. f (xs ! i) = Inr (ys ! i))"
proof (induction xs)
  case Nil
  then show ?case by simp
next
  case (Cons x xs)
  then obtain y where y: "f x = Inr y" by auto
  from Cons obtain ys where ys: "collect f xs = Inr ys" "length ys = length xs"
    "\<forall>i < length xs. f (xs ! i) = Inr (ys ! i)" by auto
  have "\<forall>i < length (x # xs). f ((x # xs) ! i) = Inr ((y # ys) ! i)"
    using y ys(3) by (auto simp: nth_Cons split: nat.splits)
  then show ?case using y ys(1,2) by (intro exI[of _ "y # ys"]) simp
qed

lemma company_link_eq:
  "company_link L base_url card_el =
     (let company_id0 = str_or (bs_attr L card_el ''data-id'') (bs_attr L card_el ''data-company-id'')
      in case el_or (bs_select_one L card_el ''a[data-test='company-link']'')
                (el_or (bs_select_one L card_el ''a[href*='/firmen/']'') (bs_find L card_el ''a'')) of
           None \<Rightarrow> Inr (None, company_id0)
         | Some dl \<Rightarrow>
             (case bs_attr L dl ''href'' of
                None \<Rightarrow> Inr (None, company_id0)
              | Some href \<Rightarrow>
                  Inr (Some (lib_urljoin L base_url href),
                       if truthy company_id0 then company_id0
                       else if truthy (bs_attr L dl ''data-id'') then bs_attr L dl ''data-id''
                       else Some (last (py_split_on CHR ''-'' (py_strip_chars ''/'' href))))))"
  unfolding company_link_def Let_def link_company_id_eq
  by (simp split: option.splits)

lemma company_link_Inr: "\<exists>u c. company_link L base_url card_el = Inr (u, c)"
  unfolding company_link_eq Let_def by (simp split: option.splits)

lemma parse_company_card_Inr:
  "\<exists>c u. parse_company_card L base_url card_el = Inr c
     \<and> cs_details c = None
     \<and> cs_address c = Some (CompanyAddress_full (extract_text L
            (el_or (bs_select_one L card_el ''[data-test='company-address']'')
               (bs_select_one L card_el ''.address''))))
     \<and> company_link L base_url card_el = Inr (u, cs_company_id c)
     \<and> cs_details_url c = u"
proof -
  obtain u c where "company_link L base_url card_el = Inr (u, c)"
    using company_link_Inr[of L base_url card_el] by auto
  then show ?thesis
    unfolding parse_company_card_def Let_def by simp
qed

lemma parse_company_list_Inr:
  "\<exists>cs. parse_company_list L html base_url = Inr cs
     \<and> length cs = length (bs_select L (bs_parse L html)
           ''[data-test='company-result-card'], article.company-item, div.company-card'')
     \<and> (\<forall>i < length cs. parse_company_card L base_url
            (bs_select L (bs_parse L html)
               ''[data-test='company-result-card'], article.company-item, div.company-card'' ! i)
          = Inr (cs ! i))"
proof -
  have "\<forall>x \<in> set (bs_select L (bs_parse L html)
           ''[data-test='company-result-card'], article.company-item, div.company-card'').
          \<exists>y. parse_company_card L base_url x = Inr y"
    using parse_company_card_Inr[of L base_url] by blast
  from collect_Inr[OF this] show ?thesis
    unfolding parse_company_list_def Let_def by auto
qed



lemma acme_page_card:
  "company_link acme_page ''https://www.wlw.de'' ''card1''
     = Inr (Some ''https://www.wlw.de/firmen/acme-gmbh-4711'', Some ''4711'')"
proof -
  have "py_strip_chars ''/'' ''/firmen/acme-gmbh-4711'' = ''firmen/acme-gmbh-4711''"
    by (simp add: py_strip_chars_def strip_pred_def)
  moreover have "py_split_on CHR ''-'' ''firmen/acme-gmbh-4711'' = [''firmen/acme'', ''gmbh'', ''4711'']"
    by (simp add: py_split_on_def)
  ultimately show ?thesis
    unfolding company_link_eq Let_def
    by (simp add: acme_page_def example_libs_def str_or_def truthy_def)
qed



text \<open>
  Claim C7. The claim is that a field no selector matched is absent in the summary, never
  the empty string. On a card without an address element the code returns the address
  with \<open>full\<close> equal to the empty string: \<open>CompanyAddress(full=address_full)\<close> lacks the
  \<open>or None\<close> that every other text field of the summary has, and that
  \<open>parse_company_details\<close> applies to the same field.
\<close>

theorem company_list_address_full_empty:
  "parse_company_list acme_page ''search.html'' ''https://www.wlw.de''
     = Inr [\<lparr>cs_company_id = Some ''4711'', cs_name = Some ''ACME GmbH'', cs_email = None,
             cs_phone_number = None, cs_homepage = None,
             cs_address = Some \<lparr>addr_street = None, addr_postal_code = None, addr_city = None,
                                 addr_country_code = None, addr_full = Some []\<rparr>,
             cs_employee_count = None, cs_founding_year = None, cs_description = None,
             cs_region = None, cs_logo_url = None,
             cs_details_url = Some ''https://www.wlw.de/firmen/acme-gmbh-4711'', cs_details = None\<rparr>]"
proof -
  have n: "normalize_whitespace ''ACME GmbH'' = ''ACME GmbH''"
    by (simp add: normalize_whitespace_def py_split_def isspace_def)
  have c: "parse_company_card acme_page ''https://www.wlw.de'' ''card1''
     = Inr \<lparr>cs_company_id = Some ''4711'', cs_name = Some ''ACME GmbH'', cs_email = None,
             cs_phone_number = None, cs_homepage = None,
             cs_address = Some \<lparr>addr_street = None, addr_postal_code = None, addr_city = None,
                                 addr_country_code = None, addr_full = Some []\<rparr>,
             cs_employee_count = None, cs_founding_year = None, cs_description = None,
             cs_region = None, cs_logo_url = None,
             cs_details_url = Some ''https://www.wlw.de/firmen/acme-gmbh-4711'', cs_details = None\<rparr>"
    unfolding parse_company_card_def acme_page_card Let_def
    by (simp add: acme_page_def example_libs_def extract_text_def n or_none_def CompanyAddress_full_def)
  have cards: "bs_select acme_page (bs_parse acme_page ''search.html'')
      ''[data-test='company-result-card'], article.company-item, div.company-card'' = [''card1'']"
    by (simp add: acme_page_def example_libs_def)
  show ?thesis
    unfolding parse_company_list_def Let_def cards by (simp add: c)
qed

section \<open>The retry loop\<close>











section \<open>The crawl loops\<close>

lemma fetch_loop_Inr:
  "0 \<le> backoff_factor cfg \<Longrightarrow> \<exists>body h. fetch_loop tr url params cfg attempt hist = (Inr body, h)"
proof (induction tr url params cfg attempt hist rule: fetch_loop.induct)
  case (1 tr url params cfg attempt hist)
  have d: "\<not> backoff_factor cfg * 2 ^ nat attempt < 0" using "1.prems" by (simp add: not_less)
  show ?case
  proof (cases "attempt \<le> retries cfg")
    case False
    then show ?thesis by (subst fetch_loop.simps) simp
  next
    case True
    show ?thesis
    proof (cases "attempt_result (tr hist url params (timeout cfg))")
      case (Inr body)
      with True show ?thesis by (subst fetch_loop.simps) (simp add: Let_def)
    next
      case (Inl exc)
      show ?thesis
      proof (cases "attempt \<ge> retries cfg")
        case True
        with Inl \<open>attempt \<le> retries cfg\<close> show ?thesis by (subst fetch_loop.simps) (simp add: Let_def)
      next
        case False
        have "time_sleep (backoff_factor cfg * 2 ^ nat attempt)
                (hist @ [Request url params (timeout cfg) (tr hist url params (timeout cfg))])
              = Inr (hist @ [Request url params (timeout cfg) (tr hist url params (timeout cfg))]
                     @ [Sleep (backoff_factor cfg * 2 ^ nat attempt)])"
          using d by (simp add: time_sleep_def)
        from "1.IH"[OF True refl refl Inl False refl this "1.prems"] this Inl False True
        show ?thesis by (subst fetch_loop.simps) (simp add: Let_def)
      qed
    qed
  qed
qed

lemma fetch_page_default: "\<exists>body h. fetch_page tr url params None hist = (Inr body, h)"
  unfolding fetch_page_def Let_def
  by (simp, rule fetch_loop_Inr) (simp add: RetryConfig_def)




lemma detail_one_cases:
  "\<exists>company1 hist1. detail_one L tr company hist = (Inr company1, hist1)
     \<and> (if truthy (cs_details_url company)
        then \<exists>details_html.
               fetch_page tr (the (cs_details_url company)) None None hist = (Inr details_html, hist1)
             \<and> (details_html = [] \<longrightarrow> company1 = company)
             \<and> (details_html \<noteq> [] \<longrightarrow>
                  (\<exists>d. parse_company_details L details_html (cs_company_id company) = Inr d
                     \<and> company1 = company\<lparr>cs_details := Some d\<rparr>))
        else company1 = company \<and> hist1 = hist)"
proof (cases "truthy (cs_details_url company)")
  case False
  then show ?thesis by (simp add: detail_one_def)
next
  case True
  obtain details_html hist1 where f:
    "fetch_page tr (the (cs_details_url company)) None None hist = (Inr details_html, hist1)"
    using fetch_page_default by blast
  show ?thesis
  proof (cases "details_html = []")
    case True
    with \<open>truthy (cs_details_url company)\<close> f show ?thesis by (simp add: detail_one_def)
  next
    case False
    obtain d where "parse_company_details L details_html (cs_company_id company) = Inr d"
      using parse_company_details_Inr[of L details_html "cs_company_id company"] by blast
    with False \<open>truthy (cs_details_url company)\<close> f show ?thesis by (simp add: detail_one_def)
  qed
qed

lemma detail_one_Inr: "\<exists>company1 hist1. detail_one L tr company hist = (Inr company1, hist1)"
  using detail_one_cases[of L tr company hist] by blast

lemma detail_pass_Inr:
  "\<exists>companies_done hist2. detail_pass L tr cs hist = (Inr companies_done, hist2)
      \<and> length companies_done = length cs"
proof (induction cs arbitrary: hist)
  case Nil
  then show ?case by simp
next
  case (Cons c cs)
  obtain c1 h1 where c1: "detail_one L tr c hist = (Inr c1, h1)" using detail_one_Inr by blast
  obtain d h2 where d: "detail_pass L tr cs h1 = (Inr d, h2)" "length d = length cs"
    using Cons.IH by blast
  show ?case by (simp add: c1 d)
qed

lemma detail_pass_append:
  "detail_pass L tr xs hist = (Inr dx, h) \<Longrightarrow> detail_pass L tr ys h = (Inr dy, h')
     \<Longrightarrow> detail_pass L tr (xs @ ys) hist = (Inr (dx @ dy), h')"
proof (induction xs arbitrary: hist dx)
  case Nil
  then show ?case by simp
next
  case (Cons c xs)
  obtain c1 h1 where c1: "detail_one L tr c hist = (Inr c1, h1)" using detail_one_Inr by blast
  obtain d h2 where d: "detail_pass L tr xs h1 = (Inr d, h2)"
    using detail_pass_Inr by blast
  from Cons.prems(1) have dx: "dx = c1 # d" "h = h2" by (simp_all add: c1 d)
  from d dx(2) have d': "detail_pass L tr xs h1 = (Inr d, h)" by simp
  have "detail_pass L tr (xs @ ys) h1 = (Inr (d @ dy), h')"
    using d' Cons.prems(2) by (rule Cons.IH)
  then show ?case by (simp add: c1 dx)
qed

lemma detail_pass_nth:
  assumes "detail_pass L tr cs hist = (Inr companies_done, hist2)" and "i < length cs"
  shows "detail_one L tr (cs ! i) (snd (detail_pass L tr (take i cs) hist))
           = (Inr (companies_done ! i), snd (detail_pass L tr (take (Suc i) cs) hist))"
proof -
  obtain dx h where dx: "detail_pass L tr (take i cs) hist = (Inr dx, h)" "length dx = length (take i cs)"
    using detail_pass_Inr by blast
  obtain c1 h1 where c1: "detail_one L tr (cs ! i) h = (Inr c1, h1)" using detail_one_Inr by blast
  then have one: "detail_pass L tr [cs ! i] h = (Inr [c1], h1)" by simp
  obtain dr h2 where dr: "detail_pass L tr (drop (Suc i) cs) h1 = (Inr dr, h2)"
    using detail_pass_Inr by blast
  have t: "take (Suc i) cs = take i cs @ [cs ! i]" using assms(2) by (simp add: take_Suc_conv_app_nth)
  have pre: "detail_pass L tr (take (Suc i) cs) hist = (Inr (dx @ [c1]), h1)"
    unfolding t using dx(1) one by (rule detail_pass_append)
  have "cs = take (Suc i) cs @ drop (Suc i) cs" by simp
  then have "detail_pass L tr cs hist = (Inr ((dx @ [c1]) @ dr), h2)"
    using detail_pass_append[OF pre dr] by simp
  with assms(1) have "companies_done = (dx @ [c1]) @ dr" by simp
  moreover have "length dx = i" using dx(2) assms(2) by simp
  ultimately have "companies_done ! i = c1" by (simp add: nth_append)
  then show ?thesis by (simp add: dx(1) pre c1)
qed

lemma company_loop_step:
  "company_loop L tr base_url query region language max_pages include_details page acc hist =
     (case company_page L tr base_url query region language include_details page hist of
        FetchFailed h \<Rightarrow> Some (Inr acc, h)
      | NoRecords h \<Rightarrow> Some (Inr acc, h)
      | PageRecords rs h \<Rightarrow>
          if 0 < max_pages \<and> max_pages \<le> page then Some (Inr (acc @ rs), h)
          else company_loop L tr base_url query region language max_pages include_details
                 (page + 1) (acc @ rs) h
      | PageRaised e h \<Rightarrow> Some (Inl e, h))"
  by (subst company_loop.simps)
    (auto simp: company_page_def company_listing_def Let_def split: prod.splits sum.splits)


lemma crawl_from_shift:
  "crawl_from step p hist (Suc k) =
     (page_records (step p hist) @ fst (crawl_from step (p + 1) (page_hist (step p hist)) k),
      snd (crawl_from step (p + 1) (page_hist (step p hist)) k))"
proof (induction k)
  case 0
  then show ?case by (simp add: Let_def)
next
  case (Suc k)
  have a: "p + int (Suc k) = p + 1 + int k" by simp
  have "crawl_from step p hist (Suc (Suc k)) =
      (fst (crawl_from step p hist (Suc k))
         @ page_records (step (p + int (Suc k)) (snd (crawl_from step p hist (Suc k)))),
       page_hist (step (p + int (Suc k)) (snd (crawl_from step p hist (Suc k)))))"
    by (subst crawl_from.simps(2)) (simp add: Let_def case_prod_beta)
  also have "\<dots> = (page_records (step p hist) @ fst (crawl_from step (p + 1) (page_hist (step p hist)) (Suc k)),
      snd (crawl_from step (p + 1) (page_hist (step p hist)) (Suc k)))"
    unfolding Suc a by (simp add: Let_def case_prod_beta)
  finally show ?case .
qed

lemma visit_0: "visit step p hist 0 = step p hist"
  by (simp add: visit_def)

lemma visit_shift: "visit step p hist (Suc k) = visit step (p + 1) (page_hist (step p hist)) k"
proof -
  have a: "p + int (Suc k) = p + 1 + int k" by simp
  show ?thesis unfolding visit_def crawl_from_shift a by simp
qed

lemma stops_at_shift:
  "stops_at step max_pages p hist (Suc k) = stops_at step max_pages (p + 1) (page_hist (step p hist)) k"
proof -
  have a: "p + int (Suc k) = p + 1 + int k" by simp
  show ?thesis unfolding stops_at_def visit_shift a by simp
qed

lemma crawl_result_shift:
  "crawl_result step p hist (Suc k) =
     map_prod (map_sum id ((@) (page_records (step p hist)))) id
       (crawl_result step (p + 1) (page_hist (step p hist)) k)"
  unfolding crawl_result_def visit_shift crawl_from_shift
  by (simp split: page_step.splits)

lemma loop_stops_generic:
  fixes f :: "int \<Rightarrow> 'r list \<Rightarrow> event list \<Rightarrow> ((py_exception + 'r list) \<times> event list) option"
  assumes eq: "\<And>page acc hist. f page acc hist =
     (case step page hist of
        FetchFailed h \<Rightarrow> Some (Inr acc, h)
      | NoRecords h \<Rightarrow> Some (Inr acc, h)
      | PageRecords rs h \<Rightarrow>
          if 0 < max_pages \<and> max_pages \<le> page then Some (Inr (acc @ rs), h)
          else f (page + 1) (acc @ rs) h
      | PageRaised e h \<Rightarrow> Some (Inl e, h))"
    and "stops_at step max_pages p hist n" and "\<forall>k < n. \<not> stops_at step max_pages p hist k"
  shows "f p acc hist = Some (map_prod (map_sum id ((@) acc)) id (crawl_result step p hist n))"
  using assms(2,3)
proof (induction n arbitrary: p acc hist)
  case 0
  then show ?case
    by (subst eq) (auto simp: stops_at_def crawl_result_def visit_0 split: page_step.splits)
next
  case (Suc n)
  from Suc.prems(2) have ns: "\<not> stops_at step max_pages p hist 0" by simp
  then obtain rs h where st: "step p hist = PageRecords rs h" and nl: "\<not> (0 < max_pages \<and> max_pages \<le> p)"
    by (auto simp: stops_at_def visit_0 split: page_step.splits)
  have s1: "stops_at step max_pages (p + 1) h n"
    using Suc.prems(1) unfolding stops_at_shift st by simp
  have s2: "\<forall>k < n. \<not> stops_at step max_pages (p + 1) h k"
  proof (intro allI impI)
    fix k assume "k < n"
    then have "\<not> stops_at step max_pages p hist (Suc k)" using Suc.prems(2) by simp
    then show "\<not> stops_at step max_pages (p + 1) h k" unfolding stops_at_shift st by simp
  qed
  from nl have nl': "(0 < max_pages \<and> max_pages \<le> p) = False" by simp
  have "f p acc hist = f (p + 1) (acc @ rs) h"
    by (subst eq) (simp only: st page_step.case nl' if_False)
  also have "\<dots> = Some (map_prod (map_sum id ((@) (acc @ rs))) id (crawl_result step (p + 1) h n))"
    using s1 s2 by (rule Suc.IH)
  also have "map_prod (map_sum id ((@) (acc @ rs))) id (crawl_result step (p + 1) h n)
      = map_prod (map_sum id ((@) acc)) id (crawl_result step p hist (Suc n))"
    unfolding crawl_result_shift st
    by (cases "crawl_result step (p + 1) h n"; cases "fst (crawl_result step (p + 1) h n)") auto
  finally show ?case .
qed

lemma map_prod_nil: "map_prod (map_sum id ((@) [])) id x = x"
  by (cases x; cases "fst x") auto




lemma company_body_step:
  "(let search_url = build_search_url (lib_urljoin L) base_url query ''company'' region language page
      in case fetch_page tr search_url None None hist of
           (Inl e, hist1) \<Rightarrow> Some (Inl e, hist1)
         | (Inr html_text, hist1) \<Rightarrow>
             if html_text = [] then Some (Inr all_companies, hist1)
             else
               (case parse_company_list L html_text base_url of
                  Inl e \<Rightarrow> Some (Inl e, hist1)
                | Inr companies_on_page \<Rightarrow>
                    if companies_on_page = [] then Some (Inr all_companies, hist1)
                    else
                      (case (if include_details then detail_pass L tr companies_on_page hist1
                             else (Inr companies_on_page, hist1)) of
                         (Inl e, hist2) \<Rightarrow> Some (Inl e, hist2)
                       | (Inr companies_done, hist2) \<Rightarrow>
                           if max_pages \<noteq> 0 \<and> max_pages > 0 \<and> page \<ge> max_pages
                           then Some (Inr (all_companies @ companies_done), hist2)
                           else f L tr base_url query region language max_pages
                                  include_details (page + 1) (all_companies @ companies_done) hist2)))
   = (case company_page L tr base_url query region language include_details page hist of
        FetchFailed h \<Rightarrow> Some (Inr all_companies, h)
      | NoRecords h \<Rightarrow> Some (Inr all_companies, h)
      | PageRecords rs h \<Rightarrow>
          if 0 < max_pages \<and> max_pages \<le> page then Some (Inr (all_companies @ rs), h)
          else f L tr base_url query region language max_pages include_details (page + 1)
                 (all_companies @ rs) h
      | PageRaised e h \<Rightarrow> Some (Inl e, h))"
  by (auto simp: company_page_def company_listing_def Let_def split: prod.splits sum.splits)

lemma company_loop_Some_stops:
  assumes a: "company_loop L tr base_url query region language max_pages include_details page acc hist = Some r"
  shows "\<exists>n. stops_at (company_page L tr base_url query region language include_details) max_pages page hist n"
proof -
  have step: "\<exists>n. stops_at (company_page L tr base_url query region language include_details) max_pages page hist n"
    if IH: "\<And>L tr base_url query region language max_pages include_details page acc hist r.
              f L tr base_url query region language max_pages include_details page acc hist = Some r
              \<Longrightarrow> \<exists>n. stops_at (company_page L tr base_url query region language include_details) max_pages page hist n"
      and body: "(case company_page L tr base_url query region language include_details page hist of
        FetchFailed h \<Rightarrow> Some (Inr acc, h)
      | NoRecords h \<Rightarrow> Some (Inr acc, h)
      | PageRecords rs h \<Rightarrow>
          if 0 < max_pages \<and> max_pages \<le> page then Some (Inr (acc @ rs), h)
          else f L tr base_url query region language max_pages include_details (page + 1) (acc @ rs) h
      | PageRaised e h \<Rightarrow> Some (Inl e, h)) = Some r"
    for f L tr base_url query region language max_pages include_details page acc hist
      and r :: "(py_exception + company_summary list) \<times> event list"
  proof (cases "stops_at (company_page L tr base_url query region language include_details) max_pages page hist 0")
    case True
    then show ?thesis by blast
  next
    case False
    then obtain rs h where st: "company_page L tr base_url query region language include_details page hist = PageRecords rs h"
      and nl: "(0 < max_pages \<and> max_pages \<le> page) = False"
      by (auto simp: stops_at_def visit_0 split: page_step.splits)
    have "f L tr base_url query region language max_pages include_details (page + 1) (acc @ rs) h = Some r"
      using body by (simp only: st page_step.case nl if_False)
    from IH[OF this] obtain n where
      "stops_at (company_page L tr base_url query region language include_details) max_pages (page + 1) h n"
      by blast
    then have "stops_at (company_page L tr base_url query region language include_details) max_pages page hist (Suc n)"
      unfolding stops_at_shift st by simp
    then show ?thesis by blast
  qed
  show ?thesis
  proof (rule company_loop.raw_induct[where P = "\<lambda>L tr base_url query region language max_pages include_details page acc hist r.
       \<exists>n. stops_at (company_page L tr base_url query region language include_details) max_pages page hist n", OF _ a], goal_cases)
    case (1 f L tr base_url query region language max_pages include_details page acc hist r)
    have body: "(case company_page L tr base_url query region language include_details page hist of
        FetchFailed h \<Rightarrow> Some (Inr acc, h)
      | NoRecords h \<Rightarrow> Some (Inr acc, h)
      | PageRecords rs h \<Rightarrow>
          if 0 < max_pages \<and> max_pages \<le> page then Some (Inr (acc @ rs), h)
          else f L tr base_url query region language max_pages include_details (page + 1) (acc @ rs) h
      | PageRaised e h \<Rightarrow> Some (Inl e, h)) = Some r"
      using 1(2) by (simp only: company_body_step[where f = f])
    show ?case using 1(1) body by (rule step)
  qed
qed




lemma crawl_from_concat:
  "fst (crawl_from step p hist k) = concat (map (\<lambda>i. page_records (visit step p hist i)) [0..<k])"
  by (induction k) (simp_all add: Let_def case_prod_beta visit_def)

section \<open>Evaluating the example sites\<close>

lemma normalize_examples:
  "normalize_whitespace ''ACME GmbH'' = ''ACME GmbH''"
  "normalize_whitespace ''Bolt AG'' = ''Bolt AG''"
  "normalize_whitespace ''Cord KG'' = ''Cord KG''"
  by (simp_all add: normalize_whitespace_def py_split_def isspace_def)

lemma last_token_examples:
  "last (py_split_on CHR ''-'' (py_strip_chars ''/'' ''/firmen/acme-gmbh-4711'')) = ''4711''"
  "last (py_split_on CHR ''-'' (py_strip_chars ''/'' ''/firmen/bolt-ag-12'')) = ''12''"
  by (simp_all add: py_strip_chars_def strip_pred_def py_split_on_def)

lemma search_url_examples:
  "build_search_url (\<lambda>base u. base @ u) ''https://www.wlw.de'' ''Aufzug'' ''company'' ''DE'' ''de'' 1
     = ''https://www.wlw.de/de/firmen/?q=Aufzug&page=1&country=DE''"
  "build_search_url (\<lambda>base u. base @ u) ''https://www.wlw.de'' ''Aufzug'' ''company'' ''DE'' ''de'' 2
     = ''https://www.wlw.de/de/firmen/?q=Aufzug&page=2&country=DE''"
  by (simp_all add: build_search_url_def urlencode_def quote_plus_def quote_char_def always_safe_def
      py_str_int_def str_nat.simps digit_char_def)





section \<open>Termination and result of the crawl\<close>




section \<open>Evaluating the catalog site\<close>

lemma catalog_list:
  "parse_company_list catalog_page ''listing.html'' ''https://www.wlw.de''
     = Inr [acme_summary, bolt_summary, cord_summary]"
proof -
  have l: "company_link catalog_page ''https://www.wlw.de'' ''card1''
     = Inr (Some ''https://www.wlw.de/firmen/acme-gmbh-4711'', Some ''4711'')"
    "company_link catalog_page ''https://www.wlw.de'' ''card2''
     = Inr (Some ''https://www.wlw.de/firmen/bolt-ag-12'', Some ''12'')"
    "company_link catalog_page ''https://www.wlw.de'' ''card3'' = Inr (None, None)"
    unfolding company_link_eq Let_def
    by (simp_all add: catalog_page_def example_libs_def str_or_def truthy_def last_token_examples)
  have c: "parse_company_card catalog_page ''https://www.wlw.de'' ''card1'' = Inr acme_summary"
    "parse_company_card catalog_page ''https://www.wlw.de'' ''card2'' = Inr bolt_summary"
    "parse_company_card catalog_page ''https://www.wlw.de'' ''card3'' = Inr cord_summary"
    unfolding parse_company_card_def l Let_def
    by (simp_all add: catalog_page_def example_libs_def extract_text_def normalize_examples or_none_def
        CompanyAddress_full_def acme_summary_def bolt_summary_def cord_summary_def)
  have cards: "bs_select catalog_page (bs_parse catalog_page ''listing.html'')
      ''[data-test='company-result-card'], article.company-item, div.company-card''
      = [''card1'', ''card2'', ''card3'']"
    by (simp add: catalog_page_def example_libs_def)
  show ?thesis
    unfolding parse_company_list_def Let_def cards by (simp add: c)
qed

lemma catalog_profile:
  "parse_company_details catalog_page ''profile.html'' (Some ''4711'') = Inr acme_profile"
proof -
  have a: "address_breakdown [] = Inr (None, None, None, None)" by (simp add: address_breakdown_def)
  have f: "parse_facts catalog_page ''profile.html'' = (None, None)"
    by (simp add: parse_facts_def catalog_page_def example_libs_def)
  show ?thesis
    unfolding parse_company_details_def Let_def
    by (simp add: catalog_page_def example_libs_def extract_text_def normalize_examples or_none_def
        a parse_facts_def acme_profile_def)
qed

lemma catalog_site_fetch:
  "fetch_page catalog_site ''https://www.wlw.de/de/firmen/?q=Aufzug&page=1&country=DE'' None None h
     = (Inr ''listing.html'',
        h @ [Request ''https://www.wlw.de/de/firmen/?q=Aufzug&page=1&country=DE'' None 20
               (Returns \<lparr>status_code = 200, resp_text = ''listing.html''\<rparr>)])"
  "fetch_page catalog_site ''https://www.wlw.de/firmen/acme-gmbh-4711'' None None h
     = (Inr ''profile.html'',
        h @ [Request ''https://www.wlw.de/firmen/acme-gmbh-4711'' None 20
               (Returns \<lparr>status_code = 200, resp_text = ''profile.html''\<rparr>)])"
  "fetch_page catalog_site ''https://www.wlw.de/firmen/bolt-ag-12'' None None h
     = (Inr [],
        h @ [Request ''https://www.wlw.de/firmen/bolt-ag-12'' None 20 (Raises RequestException),
             Sleep 0.5,
             Request ''https://www.wlw.de/firmen/bolt-ag-12'' None 20 (Raises RequestException),
             Sleep 1,
             Request ''https://www.wlw.de/firmen/bolt-ag-12'' None 20 (Raises RequestException),
             Sleep 2,
             Request ''https://www.wlw.de/firmen/bolt-ag-12'' None 20 (Raises RequestException)])"
  by (simp_all add: fetch_page_def fetch_loop.simps RetryConfig_def catalog_site_def
      attempt_result_def raise_for_status_def time_sleep_def Let_def)

lemma catalog_detail_pass:
  "detail_pass catalog_page catalog_site [acme_summary, bolt_summary, cord_summary] h
     = (Inr [acme_summary\<lparr>cs_details := Some acme_profile\<rparr>, bolt_summary, cord_summary],
        h @ [Request ''https://www.wlw.de/firmen/acme-gmbh-4711'' None 20
               (Returns \<lparr>status_code = 200, resp_text = ''profile.html''\<rparr>),
             Request ''https://www.wlw.de/firmen/bolt-ag-12'' None 20 (Raises RequestException),
             Sleep 0.5,
             Request ''https://www.wlw.de/firmen/bolt-ag-12'' None 20 (Raises RequestException),
             Sleep 1,
             Request ''https://www.wlw.de/firmen/bolt-ag-12'' None 20 (Raises RequestException),
             Sleep 2,
             Request ''https://www.wlw.de/firmen/bolt-ag-12'' None 20 (Raises RequestException)])"
proof -
  have u: "cs_details_url acme_summary = Some ''https://www.wlw.de/firmen/acme-gmbh-4711''"
    "cs_details_url bolt_summary = Some ''https://www.wlw.de/firmen/bolt-ag-12''"
    "cs_details_url cord_summary = None" "cs_company_id acme_summary = Some ''4711''"
    by (simp_all add: acme_summary_def bolt_summary_def cord_summary_def)
  have 1: "detail_one catalog_page catalog_site acme_summary h
     = (Inr (acme_summary\<lparr>cs_details := Some acme_profile\<rparr>),
        h @ [Request ''https://www.wlw.de/firmen/acme-gmbh-4711'' None 20
               (Returns \<lparr>status_code = 200, resp_text = ''profile.html''\<rparr>)])" for h
    unfolding detail_one_def Let_def u by (simp add: truthy_def catalog_site_fetch catalog_profile)
  have 2: "detail_one catalog_page catalog_site bolt_summary h
     = (Inr bolt_summary,
        h @ [Request ''https://www.wlw.de/firmen/bolt-ag-12'' None 20 (Raises RequestException),
             Sleep 0.5,
             Request ''https://www.wlw.de/firmen/bolt-ag-12'' None 20 (Raises RequestException),
             Sleep 1,
             Request ''https://www.wlw.de/firmen/bolt-ag-12'' None 20 (Raises RequestException),
             Sleep 2,
             Request ''https://www.wlw.de/firmen/bolt-ag-12'' None 20 (Raises RequestException)])" for h
    unfolding detail_one_def Let_def u by (simp add: truthy_def catalog_site_fetch)
  have 3: "detail_one catalog_page catalog_site cord_summary h = (Inr cord_summary, h)" for h
    unfolding detail_one_def Let_def u by (simp add: truthy_def)
  show ?thesis by (simp add: 1 2 3)
qed

lemma catalog_crawl:
  "scrape_company_mode catalog_page catalog_site ''https://www.wlw.de'' ''Aufzug'' ''DE'' ''de'' 1 True []
     = Some (Inr [acme_summary\<lparr>cs_details := Some acme_profile\<rparr>, bolt_summary, cord_summary],
        [Request ''https://www.wlw.de/de/firmen/?q=Aufzug&page=1&country=DE'' None 20
               (Returns \<lparr>status_code = 200, resp_text = ''listing.html''\<rparr>),
         Request ''https://www.wlw.de/firmen/acme-gmbh-4711'' None 20
               (Returns \<lparr>status_code = 200, resp_text = ''profile.html''\<rparr>),
         Request ''https://www.wlw.de/firmen/bolt-ag-12'' None 20 (Raises RequestException),
         Sleep 0.5,
         Request ''https://www.wlw.de/firmen/bolt-ag-12'' None 20 (Raises RequestException),
         Sleep 1,
         Request ''https://www.wlw.de/firmen/bolt-ag-12'' None 20 (Raises RequestException),
         Sleep 2,
         Request ''https://www.wlw.de/firmen/bolt-ag-12'' None 20 (Raises RequestException)])"
proof -
  have u: "lib_urljoin catalog_page = (\<lambda>base u. base @ u)"
    by (simp add: catalog_page_def example_libs_def)
  have "company_page catalog_page catalog_site ''https://www.wlw.de'' ''Aufzug'' ''DE'' ''de'' True 1 []
     = PageRecords [acme_summary\<lparr>cs_details := Some acme_profile\<rparr>, bolt_summary, cord_summary]
        [Request ''https://www.wlw.de/de/firmen/?q=Aufzug&page=1&country=DE'' None 20
               (Returns \<lparr>status_code = 200, resp_text = ''listing.html''\<rparr>),
         Request ''https://www.wlw.de/firmen/acme-gmbh-4711'' None 20
               (Returns \<lparr>status_code = 200, resp_text = ''profile.html''\<rparr>),
         Request ''https://www.wlw.de/firmen/bolt-ag-12'' None 20 (Raises RequestException),
         Sleep 0.5,
         Request ''https://www.wlw.de/firmen/bolt-ag-12'' None 20 (Raises RequestException),
         Sleep 1,
         Request ''https://www.wlw.de/firmen/bolt-ag-12'' None 20 (Raises RequestException),
         Sleep 2,
         Request ''https://www.wlw.de/firmen/bolt-ag-12'' None 20 (Raises RequestException)]"
    unfolding company_page_def company_listing_def u search_url_examples catalog_site_fetch
    by (simp add: catalog_list catalog_detail_pass del: detail_pass.simps)
  then show ?thesis
    unfolding scrape_company_mode_def by (subst company_loop_step) simp
qed

section \<open>The detail pass\<close>

lemma parse_company_list_no_details:
  assumes "parse_company_list L html base_url = Inr cs" and "i < length cs"
  shows "cs_details (cs ! i) = None"
proof -
  obtain cs' where cs': "parse_company_list L html base_url = Inr cs'"
    "\<forall>i < length cs'. parse_company_card L base_url
            (bs_select L (bs_parse L html)
               ''[data-test='company-result-card'], article.company-item, div.company-card'' ! i)
          = Inr (cs' ! i)"
    using parse_company_list_Inr[of L html base_url] by blast
  with assms have "parse_company_card L base_url
            (bs_select L (bs_parse L html)
               ''[data-test='company-result-card'], article.company-item, div.company-card'' ! i)
          = Inr (cs ! i)" by simp
  then show ?thesis
    using parse_company_card_Inr[of L base_url "bs_select L (bs_parse L html)
               ''[data-test='company-result-card'], article.company-item, div.company-card'' ! i"]
    by auto
qed

lemma detail_one_frame:
  "detail_one L tr c hist = (Inr c1, h1) \<Longrightarrow> c1 = c\<lparr>cs_details := cs_details c1\<rparr>"
  using detail_one_cases[of L tr c hist] by (auto split: if_splits)

lemma detail_pass_frame_nth:
  assumes "detail_pass L tr cs hist = (Inr companies_done, hist2)" and "i < length cs"
  shows "companies_done ! i = (cs ! i)\<lparr>cs_details := cs_details (companies_done ! i)\<rparr>"
  using detail_pass_nth[OF assms] by (rule detail_one_frame)

lemma detail_pass_erase:
  assumes "detail_pass L tr cs hist = (Inr companies_done, hist2)"
  shows "map (\<lambda>c. c\<lparr>cs_details := None\<rparr>) companies_done = map (\<lambda>c. c\<lparr>cs_details := None\<rparr>) cs"
proof (rule nth_equalityI)
  obtain d h where "detail_pass L tr cs hist = (Inr d, h)" "length d = length cs"
    using detail_pass_Inr by blast
  with assms have len: "length companies_done = length cs" by simp
  then show "length (map (\<lambda>c. c\<lparr>cs_details := None\<rparr>) companies_done) = length (map (\<lambda>c. c\<lparr>cs_details := None\<rparr>) cs)"
    by simp
  fix i assume "i < length (map (\<lambda>c. c\<lparr>cs_details := None\<rparr>) companies_done)"
  then have i: "i < length cs" using len by simp
  have "(companies_done ! i)\<lparr>cs_details := None\<rparr> = (cs ! i)\<lparr>cs_details := None\<rparr>"
    by (subst detail_pass_frame_nth[OF assms i]) simp
  then show "map (\<lambda>c. c\<lparr>cs_details := None\<rparr>) companies_done ! i = map (\<lambda>c. c\<lparr>cs_details := None\<rparr>) cs ! i"
    using i len by simp
qed

lemma company_listing_records:
  assumes "company_listing L tr base_url query region language page hist = PageRecords cs h1"
  shows "map (\<lambda>c. c\<lparr>cs_details := None\<rparr>) cs = cs"
proof -
  from assms obtain html where p: "parse_company_list L html base_url = Inr cs"
    unfolding company_listing_def by (auto split: prod.splits sum.splits if_splits)
  show ?thesis
  proof (rule nth_equalityI)
    fix i assume "i < length (map (\<lambda>c. c\<lparr>cs_details := None\<rparr>) cs)"
    then have i: "i < length cs" by simp
    have "cs_details (cs ! i) = None" using p i by (rule parse_company_list_no_details)
    then have "(cs ! i)\<lparr>cs_details := None\<rparr> = cs ! i" by simp
    then show "map (\<lambda>c. c\<lparr>cs_details := None\<rparr>) cs ! i = cs ! i" using i by simp
  qed simp
qed

lemma company_page_erase:
  "map (\<lambda>c. c\<lparr>cs_details := None\<rparr>)
       (page_records (company_page L tr base_url query region language include_details page hist))
   = page_records (company_listing L tr base_url query region language page hist)"
proof (cases "company_listing L tr base_url query region language page hist")
  case (PageRecords cs h1)
  note e = company_listing_records[OF PageRecords]
  show ?thesis
  proof (cases include_details)
    case True
    obtain d h2 where d: "detail_pass L tr cs h1 = (Inr d, h2)" using detail_pass_Inr by blast
    from detail_pass_erase[OF d] e True d show ?thesis by (simp add: company_page_def PageRecords)
  next
    case False
    with e show ?thesis by (simp add: company_page_def PageRecords)
  qed
qed (simp_all add: company_page_def)

lemma crawl_result_records:
  assumes "crawl_result step p hist n = (Inr out, h)"
  shows "out = concat (map (\<lambda>k. page_records (visit step p hist k)) [0..<Suc n])"
  using assms unfolding crawl_result_def
  by (cases "visit step p hist n") (auto simp: crawl_from_concat)

text \<open>
  Claim C3. Let \<open>companies_on_page\<close> be what \<open>parse_company_list\<close> returns for a page.
  The detail pass never raises and returns one record per summary, in order. No summary
  comes with a \<open>details\<close> key. For the summary at position \<open>i\<close>, with the history
  \<open>before\<close> that the summaries ahead of it leave: if its \<open>details_url\<close> is present and not
  empty, exactly that URL is fetched; a non-empty answer is parsed and stored under
  \<open>details\<close>; an empty answer leaves the summary as it was. A summary without
  \<open>details_url\<close> is left as it was and nothing is fetched. Either way the pass goes on
  with the next summary, and after the pass the loop accumulates the page and continues
  as on any page with records: it returns under the page limit and otherwise fetches the
  next page.
\<close>

theorem detail_fetch_isolated:
  assumes "parse_company_list L html_text base_url = Inr companies_on_page"
  shows "\<exists>companies_done hist2.
      detail_pass L tr companies_on_page hist1 = (Inr companies_done, hist2)
    \<and> length companies_done = length companies_on_page
    \<and> (\<forall>i < length companies_on_page.
         let company = companies_on_page ! i;
             before = snd (detail_pass L tr (take i companies_on_page) hist1);
             after = snd (detail_pass L tr (take (Suc i) companies_on_page) hist1)
         in cs_details company = None
          \<and> (if truthy (cs_details_url company)
             then \<exists>details_html.
                    fetch_page tr (the (cs_details_url company)) None None before = (Inr details_html, after)
                  \<and> (details_html = [] \<longrightarrow> companies_done ! i = company)
                  \<and> (details_html \<noteq> [] \<longrightarrow>
                       (\<exists>d. parse_company_details L details_html (cs_company_id company) = Inr d
                          \<and> companies_done ! i = company\<lparr>cs_details := Some d\<rparr>))
             else companies_done ! i = company \<and> after = before))
    \<and> (fetch_page tr (build_search_url (lib_urljoin L) base_url query ''company'' region language page)
           None None hist = (Inr html_text, hist1)
         \<and> html_text \<noteq> [] \<and> companies_on_page \<noteq> []
        \<longrightarrow> company_loop L tr base_url query region language max_pages True page acc hist
            = (if 0 < max_pages \<and> max_pages \<le> page then Some (Inr (acc @ companies_done), hist2)
               else company_loop L tr base_url query region language max_pages True (page + 1)
                      (acc @ companies_done) hist2))"
proof -
  obtain companies_done hist2 where d: "detail_pass L tr companies_on_page hist1 = (Inr companies_done, hist2)"
    "length companies_done = length companies_on_page"
    using detail_pass_Inr by blast
  have per: "let company = companies_on_page ! i;
             before = snd (detail_pass L tr (take i companies_on_page) hist1);
             after = snd (detail_pass L tr (take (Suc i) companies_on_page) hist1)
         in cs_details company = None
          \<and> (if truthy (cs_details_url company)
             then \<exists>details_html.
                    fetch_page tr (the (cs_details_url company)) None None before = (Inr details_html, after)
                  \<and> (details_html = [] \<longrightarrow> companies_done ! i = company)
                  \<and> (details_html \<noteq> [] \<longrightarrow>
                       (\<exists>d. parse_company_details L details_html (cs_company_id company) = Inr d
                          \<and> companies_done ! i = company\<lparr>cs_details := Some d\<rparr>))
             else companies_done ! i = company \<and> after = before)"
    if i: "i < length companies_on_page" for i
  proof -
    note one = detail_pass_nth[OF d(1) i]
    show ?thesis
      unfolding Let_def
      using detail_one_cases[of L tr "companies_on_page ! i"
          "snd (detail_pass L tr (take i companies_on_page) hist1)"]
        parse_company_list_no_details[OF assms i]
      unfolding one by (auto split: if_splits)
  qed
  have loop: "company_loop L tr base_url query region language max_pages True page acc hist
            = (if 0 < max_pages \<and> max_pages \<le> page then Some (Inr (acc @ companies_done), hist2)
               else company_loop L tr base_url query region language max_pages True (page + 1)
                      (acc @ companies_done) hist2)"
    if "fetch_page tr (build_search_url (lib_urljoin L) base_url query ''company'' region language page)
           None None hist = (Inr html_text, hist1)" "html_text \<noteq> []" "companies_on_page \<noteq> []"
  proof -
    have "company_page L tr base_url query region language True page hist = PageRecords companies_done hist2"
      using that assms d(1) by (simp add: company_page_def company_listing_def)
    then show ?thesis by (subst company_loop_step) simp
  qed
  show ?thesis
    using d per loop by (intro exI[of _ companies_done] exI[of _ hist2]) blast
qed


theorem detail_fetch_isolated_witness:
  "parse_company_list catalog_page ''listing.html'' ''https://www.wlw.de''
     = Inr [acme_summary, bolt_summary, cord_summary]
   \<and> scrape_company_mode catalog_page catalog_site ''https://www.wlw.de'' ''Aufzug'' ''DE'' ''de'' 1 True []
     = Some (Inr [acme_summary\<lparr>cs_details := Some acme_profile\<rparr>, bolt_summary, cord_summary],
        [Request ''https://www.wlw.de/de/firmen/?q=Aufzug&page=1&country=DE'' None 20
               (Returns \<lparr>status_code = 200, resp_text = ''listing.html''\<rparr>),
         Request ''https://www.wlw.de/firmen/acme-gmbh-4711'' None 20
               (Returns \<lparr>status_code = 200, resp_text = ''profile.html''\<rparr>),
         Request ''https://www.wlw.de/firmen/bolt-ag-12'' None 20 (Raises RequestException),
         Sleep 0.5,
         Request ''https://www.wlw.de/firmen/bolt-ag-12'' None 20 (Raises RequestException),
         Sleep 1,
         Request ''https://www.wlw.de/firmen/bolt-ag-12'' None 20 (Raises RequestException),
         Sleep 2,
         Request ''https://www.wlw.de/firmen/bolt-ag-12'' None 20 (Raises RequestException)])
   \<and> cs_details bolt_summary = None \<and> cs_details cord_summary = None"
proof -
  let ?h1 = "[Request ''https://www.wlw.de/de/firmen/?q=Aufzug&page=1&country=DE'' None 20
               (Returns \<lparr>status_code = 200, resp_text = ''listing.html''\<rparr>)]"
  have u: "build_search_url (lib_urljoin catalog_page) ''https://www.wlw.de'' ''Aufzug'' ''company'' ''DE'' ''de'' 1
      = ''https://www.wlw.de/de/firmen/?q=Aufzug&page=1&country=DE''"
    using search_url_examples(1) by (simp add: catalog_page_def example_libs_def)
  have f: "fetch_page catalog_site
      (build_search_url (lib_urljoin catalog_page) ''https://www.wlw.de'' ''Aufzug'' ''company'' ''DE'' ''de'' 1)
      None None [] = (Inr ''listing.html'', ?h1)"
    unfolding u by (simp add: catalog_site_fetch)
  obtain companies_done hist2 where
    d: "detail_pass catalog_page catalog_site [acme_summary, bolt_summary, cord_summary] ?h1
          = (Inr companies_done, hist2)"
    and loop: "fetch_page catalog_site
          (build_search_url (lib_urljoin catalog_page) ''https://www.wlw.de'' ''Aufzug'' ''company'' ''DE'' ''de'' 1)
          None None [] = (Inr ''listing.html'', ?h1)
        \<and> ''listing.html'' \<noteq> [] \<and> [acme_summary, bolt_summary, cord_summary] \<noteq> []
        \<longrightarrow> company_loop catalog_page catalog_site ''https://www.wlw.de'' ''Aufzug'' ''DE'' ''de'' 1 True 1 [] []
            = (if (0::int) < 1 \<and> (1::int) \<le> 1 then Some (Inr ([] @ companies_done), hist2)
               else company_loop catalog_page catalog_site ''https://www.wlw.de'' ''Aufzug'' ''DE'' ''de'' 1 True (1 + 1)
                      ([] @ companies_done) hist2)"
    using detail_fetch_isolated[OF catalog_list, where tr = catalog_site and ?hist1.0 = ?h1
        and hist = "[]" and page = 1 and acc = "[]" and max_pages = 1 and query = "''Aufzug''"
        and region = "''DE''" and language = "''de''"]
    by blast
  from loop f have run: "company_loop catalog_page catalog_site ''https://www.wlw.de'' ''Aufzug'' ''DE'' ''de'' 1 True 1 [] []
      = Some (Inr companies_done, hist2)" by simp
  from d have "companies_done = [acme_summary\<lparr>cs_details := Some acme_profile\<rparr>, bolt_summary, cord_summary]"
    and "hist2 = ?h1 @ [Request ''https://www.wlw.de/firmen/acme-gmbh-4711'' None 20
               (Returns \<lparr>status_code = 200, resp_text = ''profile.html''\<rparr>),
         Request ''https://www.wlw.de/firmen/bolt-ag-12'' None 20 (Raises RequestException),
         Sleep 0.5,
         Request ''https://www.wlw.de/firmen/bolt-ag-12'' None 20 (Raises RequestException),
         Sleep 1,
         Request ''https://www.wlw.de/firmen/bolt-ag-12'' None 20 (Raises RequestException),
         Sleep 2,
         Request ''https://www.wlw.de/firmen/bolt-ag-12'' None 20 (Raises RequestException)]"
    unfolding catalog_detail_pass by simp_all
  with run catalog_list show ?thesis
    by (simp add: scrape_company_mode_def bolt_summary_def cord_summary_def)
qed

text \<open>
  Claim C10. The detail pass returns, for every list of summaries, a list of the same
  length whose record at each position equals the summary at that position in every
  field other than \<open>details\<close>: each of the twelve keys \<open>company_id\<close>, \<open>name\<close>,
  \<open>email\<close>, \<open>phone_number\<close>, \<open>homepage\<close>, \<open>address\<close>, \<open>employee_count\<close>,
  \<open>founding_year\<close>, \<open>description\<close>, \<open>region\<close>, \<open>logo_url\<close> and \<open>details_url\<close> keeps
  its value. And whenever \<open>scrape_company_mode\<close> returns a list, that list with the
  \<open>details\<close> key removed is the concatenation, in page order, of what
  \<open>parse_company_list\<close> gave for each page up to the stopping page: every summary is in
  the output at its page and card position.
\<close>

theorem detail_pass_frame:
  "(\<exists>companies_done hist2.
       detail_pass L tr companies_on_page hist1 = (Inr companies_done, hist2)
     \<and> length companies_done = length companies_on_page
     \<and> (\<forall>i < length companies_on_page.
          companies_done ! i = (companies_on_page ! i)\<lparr>cs_details := cs_details (companies_done ! i)\<rparr>
        \<and> cs_company_id (companies_done ! i) = cs_company_id (companies_on_page ! i)
        \<and> cs_name (companies_done ! i) = cs_name (companies_on_page ! i)
        \<and> cs_email (companies_done ! i) = cs_email (companies_on_page ! i)
        \<and> cs_phone_number (companies_done ! i) = cs_phone_number (companies_on_page ! i)
        \<and> cs_homepage (companies_done ! i) = cs_homepage (companies_on_page ! i)
        \<and> cs_address (companies_done ! i) = cs_address (companies_on_page ! i)
        \<and> cs_employee_count (companies_done ! i) = cs_employee_count (companies_on_page ! i)
        \<and> cs_founding_year (companies_done ! i) = cs_founding_year (companies_on_page ! i)
        \<and> cs_description (companies_done ! i) = cs_description (companies_on_page ! i)
        \<and> cs_region (companies_done ! i) = cs_region (companies_on_page ! i)
        \<and> cs_logo_url (companies_done ! i) = cs_logo_url (companies_on_page ! i)
        \<and> cs_details_url (companies_done ! i) = cs_details_url (companies_on_page ! i)))
   \<and> (\<forall>out h.
        scrape_company_mode L tr base_url query region language max_pages include_details hist
          = Some (Inr out, h)
        \<longrightarrow> (\<exists>n. stops_at (company_page L tr base_url query region language include_details)
                     max_pages 1 hist n
                \<and> (\<forall>k < n. \<not> stops_at (company_page L tr base_url query region language include_details)
                     max_pages 1 hist k)
                \<and> map (\<lambda>c. c\<lparr>cs_details := None\<rparr>) out =
                    concat (map (\<lambda>k. page_records
                            (company_listing L tr base_url query region language (1 + int k)
                               (snd (crawl_from
                                  (company_page L tr base_url query region language include_details)
                                  1 hist k))))
                          [0..<Suc n])))"
proof -
  obtain companies_done hist2 where d: "detail_pass L tr companies_on_page hist1 = (Inr companies_done, hist2)"
    "length companies_done = length companies_on_page"
    using detail_pass_Inr by blast
  have fr: "companies_done ! i = (companies_on_page ! i)\<lparr>cs_details := cs_details (companies_done ! i)\<rparr>"
    if "i < length companies_on_page" for i
    using d(1) that by (rule detail_pass_frame_nth)
  have fields: "cs_company_id (companies_done ! i) = cs_company_id (companies_on_page ! i)
        \<and> cs_name (companies_done ! i) = cs_name (companies_on_page ! i)
        \<and> cs_email (companies_done ! i) = cs_email (companies_on_page ! i)
        \<and> cs_phone_number (companies_done ! i) = cs_phone_number (companies_on_page ! i)
        \<and> cs_homepage (companies_done ! i) = cs_homepage (companies_on_page ! i)
        \<and> cs_address (companies_done ! i) = cs_address (companies_on_page ! i)
        \<and> cs_employee_count (companies_done ! i) = cs_employee_count (companies_on_page ! i)
        \<and> cs_founding_year (companies_done ! i) = cs_founding_year (companies_on_page ! i)
        \<and> cs_description (companies_done ! i) = cs_description (companies_on_page ! i)
        \<and> cs_region (companies_done ! i) = cs_region (companies_on_page ! i)
        \<and> cs_logo_url (companies_done ! i) = cs_logo_url (companies_on_page ! i)
        \<and> cs_details_url (companies_done ! i) = cs_details_url (companies_on_page ! i)"
    if "i < length companies_on_page" for i
    by (subst (1 2 3 4 5 6 7 8 9 10 11 12) fr[OF that]) simp
  have first: "\<exists>companies_done hist2.
       detail_pass L tr companies_on_page hist1 = (Inr companies_done, hist2)
     \<and> length companies_done = length companies_on_page
     \<and> (\<forall>i < length companies_on_page.
          companies_done ! i = (companies_on_page ! i)\<lparr>cs_details := cs_details (companies_done ! i)\<rparr>
        \<and> cs_company_id (companies_done ! i) = cs_company_id (companies_on_page ! i)
        \<and> cs_name (companies_done ! i) = cs_name (companies_on_page ! i)
        \<and> cs_email (companies_done ! i) = cs_email (companies_on_page ! i)
        \<and> cs_phone_number (companies_done ! i) = cs_phone_number (companies_on_page ! i)
        \<and> cs_homepage (companies_done ! i) = cs_homepage (companies_on_page ! i)
        \<and> cs_address (companies_done ! i) = cs_address (companies_on_page ! i)
        \<and> cs_employee_count (companies_done ! i) = cs_employee_count (companies_on_page ! i)
        \<and> cs_founding_year (companies_done ! i) = cs_founding_year (companies_on_page ! i)
        \<and> cs_description (companies_done ! i) = cs_description (companies_on_page ! i)
        \<and> cs_region (companies_done ! i) = cs_region (companies_on_page ! i)
        \<and> cs_logo_url (companies_done ! i) = cs_logo_url (companies_on_page ! i)
        \<and> cs_details_url (companies_done ! i) = cs_details_url (companies_on_page ! i))"
    using d fr fields by (intro exI[of _ companies_done] exI[of _ hist2]) blast
  define cstep where "cstep = company_page L tr base_url query region language include_details"
  define cf where "cf = company_loop L tr base_url query region language max_pages include_details"
  have ceq: "cf page acc h = (case cstep page h of
        FetchFailed h \<Rightarrow> Some (Inr acc, h)
      | NoRecords h \<Rightarrow> Some (Inr acc, h)
      | PageRecords rs h \<Rightarrow>
          if 0 < max_pages \<and> max_pages \<le> page then Some (Inr (acc @ rs), h)
          else cf (page + 1) (acc @ rs) h
      | PageRaised e h \<Rightarrow> Some (Inl e, h))" for page acc h
    unfolding cf_def cstep_def by (rule company_loop_step)
  have second: "\<exists>n. stops_at cstep max_pages 1 hist n
                \<and> (\<forall>k < n. \<not> stops_at cstep max_pages 1 hist k)
                \<and> map (\<lambda>c. c\<lparr>cs_details := None\<rparr>) out =
                 concat (map (\<lambda>k. page_records
                            (company_listing L tr base_url query region language (1 + int k)
                               (snd (crawl_from cstep 1 hist k))))
                          [0..<Suc n])"
    if s: "scrape_company_mode L tr base_url query region language max_pages include_details hist
          = Some (Inr out, h)" for out h
  proof -
    from s have run: "cf 1 [] hist = Some (Inr out, h)" by (simp add: scrape_company_mode_def cf_def)
    then have ex: "\<exists>n. stops_at cstep max_pages 1 hist n"
      unfolding cf_def cstep_def by (rule company_loop_Some_stops)
    define n where "n = (LEAST n. stops_at cstep max_pages 1 hist n)"
    have n: "stops_at cstep max_pages 1 hist n" unfolding n_def using ex by (rule LeastI_ex)
    have least: "\<forall>k < n. \<not> stops_at cstep max_pages 1 hist k"
      unfolding n_def using not_less_Least by blast
    have "cf 1 [] hist = Some (crawl_result cstep 1 hist n)"
      using loop_stops_generic[where f = cf and step = cstep and acc = "[]", OF ceq n least]
      by (simp add: map_prod_nil)
    with run have "crawl_result cstep 1 hist n = (Inr out, h)" by simp
    then have out: "out = concat (map (\<lambda>k. page_records (visit cstep 1 hist k)) [0..<Suc n])"
      by (rule crawl_result_records)
    have "map (\<lambda>c. c\<lparr>cs_details := None\<rparr>) out =
        concat (map (\<lambda>k. map (\<lambda>c. c\<lparr>cs_details := None\<rparr>) (page_records (visit cstep 1 hist k))) [0..<Suc n])"
      unfolding out by (simp only: map_concat map_map o_def)
    also have "\<dots> = concat (map (\<lambda>k. page_records
                            (company_listing L tr base_url query region language (1 + int k)
                               (snd (crawl_from cstep 1 hist k)))) [0..<Suc n])"
      unfolding visit_def cstep_def company_page_erase ..
    finally show ?thesis using n least by blast
  qed
  show ?thesis
    using first second unfolding cstep_def by blast
qed

theorem detail_pass_frame_witness:
  "(\<exists>companies_done hist2.
       detail_pass catalog_page catalog_site [acme_summary, bolt_summary, cord_summary] [] = (Inr companies_done, hist2)
     \<and> map cs_details companies_done = [Some acme_profile, None, None]
     \<and> map cs_name companies_done = [Some ''ACME GmbH'', Some ''Bolt AG'', Some ''Cord KG'']
     \<and> map cs_company_id companies_done = [Some ''4711'', Some ''12'', None]
     \<and> map cs_details_url companies_done =
          [Some ''https://www.wlw.de/firmen/acme-gmbh-4711'', Some ''https://www.wlw.de/firmen/bolt-ag-12'', None])
   \<and> (\<exists>n. map (\<lambda>c. c\<lparr>cs_details := None\<rparr>)
             [acme_summary\<lparr>cs_details := Some acme_profile\<rparr>, bolt_summary, cord_summary] =
           concat (map (\<lambda>k. page_records
                      (company_listing catalog_page catalog_site ''https://www.wlw.de'' ''Aufzug'' ''DE'' ''de''
                         (1 + int k)
                         (snd (crawl_from
                            (company_page catalog_page catalog_site ''https://www.wlw.de'' ''Aufzug'' ''DE'' ''de'' True)
                            1 [] k))))
                    [0..<Suc n]))"
proof -
  note t = detail_pass_frame[where L = catalog_page and tr = catalog_site
      and companies_on_page = "[acme_summary, bolt_summary, cord_summary]" and ?hist1.0 = "[]"
      and base_url = "''https://www.wlw.de''" and query = "''Aufzug''" and region = "''DE''"
      and language = "''de''" and max_pages = 1 and include_details = True and hist = "[]"]
  from t obtain companies_done hist2 where
    d: "detail_pass catalog_page catalog_site [acme_summary, bolt_summary, cord_summary] [] = (Inr companies_done, hist2)"
    and len: "length companies_done = length [acme_summary, bolt_summary, cord_summary]"
    and fr: "\<forall>i < length [acme_summary, bolt_summary, cord_summary].
        cs_name (companies_done ! i) = cs_name ([acme_summary, bolt_summary, cord_summary] ! i)
      \<and> cs_company_id (companies_done ! i) = cs_company_id ([acme_summary, bolt_summary, cord_summary] ! i)
      \<and> cs_details_url (companies_done ! i) = cs_details_url ([acme_summary, bolt_summary, cord_summary] ! i)"
    by blast
  from len obtain a b c where abc: "companies_done = [a, b, c]"
    by (auto simp: length_Suc_conv)
  have f0: "cs_name a = cs_name acme_summary" "cs_company_id a = cs_company_id acme_summary"
    "cs_details_url a = cs_details_url acme_summary"
    using fr[rule_format, of 0] by (simp_all add: abc)
  have f1: "cs_name b = cs_name bolt_summary" "cs_company_id b = cs_company_id bolt_summary"
    "cs_details_url b = cs_details_url bolt_summary"
    using fr[rule_format, of 1] by (simp_all add: abc)
  have f2: "cs_name c = cs_name cord_summary" "cs_company_id c = cs_company_id cord_summary"
    "cs_details_url c = cs_details_url cord_summary"
    using fr[rule_format, of 2] by (simp_all add: abc)
  have det: "map cs_details companies_done = [Some acme_profile, None, None]"
    using d unfolding catalog_detail_pass by (auto simp: bolt_summary_def cord_summary_def)
  have first: "\<exists>companies_done hist2.
       detail_pass catalog_page catalog_site [acme_summary, bolt_summary, cord_summary] [] = (Inr companies_done, hist2)
     \<and> map cs_details companies_done = [Some acme_profile, None, None]
     \<and> map cs_name companies_done = [Some ''ACME GmbH'', Some ''Bolt AG'', Some ''Cord KG'']
     \<and> map cs_company_id companies_done = [Some ''4711'', Some ''12'', None]
     \<and> map cs_details_url companies_done =
          [Some ''https://www.wlw.de/firmen/acme-gmbh-4711'', Some ''https://www.wlw.de/firmen/bolt-ag-12'', None]"
    using d det f0 f1 f2
    by (intro exI[of _ companies_done] exI[of _ hist2])
      (simp add: abc acme_summary_def bolt_summary_def cord_summary_def)
  from t catalog_crawl have second: "\<exists>n. map (\<lambda>c. c\<lparr>cs_details := None\<rparr>)
             [acme_summary\<lparr>cs_details := Some acme_profile\<rparr>, bolt_summary, cord_summary] =
           concat (map (\<lambda>k. page_records
                      (company_listing catalog_page catalog_site ''https://www.wlw.de'' ''Aufzug'' ''DE'' ''de''
                         (1 + int k)
                         (snd (crawl_from
                            (company_page catalog_page catalog_site ''https://www.wlw.de'' ''Aufzug'' ''DE'' ''de'' True)
                            1 [] k))))
                    [0..<Suc n])"
    by blast
  from first second show ?thesis by blast
qed

end
